theory Spec2Isabelle
  imports Main "HOL-Library.Word" "HOL-Library.Signed_Division"
begin

section \<open>FileToHeaderConverter: a shallow embedding of Src/Main.cpp\<close>

text \<open>
  The program turns a file into a C++ header. This theory embeds its five functions
  (\<open>main\<close>, \<open>CompareStrings\<close>, \<open>ProcessString\<close>, \<open>ProcessHex\<close>, \<open>ValidateArrayName\<close>)
  together with the parts of the iostream library they rely on, and proves the
  properties stated for them.

  Conventions.
  \<^item> A byte and a C++ \<open>char\<close> are both a HOL \<open>char\<close> (eight bits). A file is the list of
    its bytes, and \<open>static_cast<int>\<close> of an \<open>unsigned char\<close> is \<open>of_char\<close>, a number
    from 0 to 255.
  \<^item> A \<open>const char*\<close> is a \<open>string\<close> read up to its terminator: the end of the list, or
    the first \<open>NUL\<close> in it. \<open>deref\<close> is \<open>*p\<close>, \<open>c_str\<close> is the text before the terminator.
    Command-line arguments never hold a \<open>NUL\<close>, and for them \<open>c_str s = s\<close>.
  \<^item> The file system, standard output and the error stream are fields of a record
    \<open>world\<close> that every function takes and returns, next to its exit code. A path
    names a file through \<open>realpath\<close>: two texts with the same \<open>realpath\<close> are two names of
    one file.
  \<^item> An output stream is its buffer and its formatting state (field width, fill
    character, number base). The newline that \<open>std::endl\<close> writes is the byte \<open>LF\<close>.
\<close>

subsection \<open>Characters and C strings\<close>

definition NUL :: char where
  "NUL = CHR 0x00"

definition LF :: char where
  "LF = CHR 0x0A"

text \<open>Integral promotion of a (signed) \<open>char\<close>, as every comparison of the source does it.\<close>

definition char_val :: "char \<Rightarrow> int" where
  "char_val c = (if (of_char c :: int) < 128 then of_char c else of_char c - 256)"

definition deref :: "string \<Rightarrow> char" where
  "deref p = (case p of [] \<Rightarrow> NUL | c # _ \<Rightarrow> c)"

fun c_str :: "string \<Rightarrow> string" where
  "c_str [] = []"
| "c_str (c # cs) = (if c = NUL then [] else c # c_str cs)"

subsection \<open>CompareStrings (Main.cpp, lines 108 to 122)\<close>

text \<open>What follows the loop: 0 when both pointers are at a terminator, else the difference.\<close>

definition compare_tail :: "char \<Rightarrow> char \<Rightarrow> int" where
  "compare_tail c1 c2 = (if c1 = NUL \<and> c2 = NUL then 0 else char_val c1 - char_val c2)"

fun CompareStrings :: "string \<Rightarrow> string \<Rightarrow> int" where
  "CompareStrings (c1 # string1) (c2 # string2) =
     (if c1 \<noteq> NUL \<and> c2 \<noteq> NUL \<and> c1 = c2 then CompareStrings string1 string2
      else compare_tail c1 c2)"
| "CompareStrings string1 string2 = compare_tail (deref string1) (deref string2)"

subsection \<open>The process environment\<close>

text \<open>
  \<open>realpath\<close> gives the place that a path text names, \<open>files\<close> the content of the file
  at a place, if there is one, and \<open>writable\<close> says whether a stream can be opened for
  writing at a place (on an existing file or on a new one).
\<close>

record world =
  realpath :: "string \<Rightarrow> string"
  files :: "string \<rightharpoonup> string"
  writable :: "string \<Rightarrow> bool"
  cout :: string
  cerr :: string

text \<open>
  How a run ends. \<open>Exit\<close> holds the value that \<open>main\<close> returns and the world it leaves.
  \<open>Reads_Own_Output\<close> stands for the runs in which the input and the output are one
  file and the read loop is reached: the loop then reads what the run itself has
  written so far, which depends on when each of the two streams moves its buffer. This
  theory does not describe such a run further: the statements about what an encoder
  writes are about runs whose input and output are two files.
\<close>

datatype run = Exit int world | Reads_Own_Output

text \<open>\<open>std::cerr << s << std::endl\<close> and \<open>std::cout << s << std::endl\<close>.\<close>

definition cerr_line :: "string \<Rightarrow> world \<Rightarrow> world" where
  "cerr_line s w = w\<lparr>cerr := cerr w @ s @ [LF]\<rparr>"

definition cout_line :: "string \<Rightarrow> world \<Rightarrow> world" where
  "cout_line s w = w\<lparr>cout := cout w @ s @ [LF]\<rparr>"

text \<open>
  \<open>std::ifstream(name, std::ios::binary)\<close> is open exactly when the file exists, and
  then reads its bytes untranslated. \<open>open_in\<close> gives the content of the file when the
  stream is opened. The stream reads it later, in the read loop; this is the same
  content provided that nothing has written to the file since, which is so when the
  output is another file (\<open>same_file\<close> below).

  \<open>std::ofstream(name)\<close> is open exactly when the place can be written, and opening it
  leaves the file at that place empty, under every name it has.
\<close>

definition open_in :: "world \<Rightarrow> string \<Rightarrow> string option" where
  "open_in w name = files w (realpath w (c_str name))"

definition open_out :: "world \<Rightarrow> string \<Rightarrow> world option" where
  "open_out w name =
     (if writable w (realpath w (c_str name))
      then Some (w\<lparr>files := (files w)(realpath w (c_str name) \<mapsto> [])\<rparr>)
      else None)"

definition same_file :: "world \<Rightarrow> string \<Rightarrow> string \<Rightarrow> bool" where
  "same_file w name1 name2 = (realpath w (c_str name1) = realpath w (c_str name2))"

subsection \<open>Formatted output on a \<open>std::ostream\<close>\<close>

record ostream =
  buf :: string
  width :: nat
  fill :: char
  hexbase :: bool

definition new_ostream :: ostream where
  "new_ostream = \<lparr>buf = [], width = 0, fill = CHR '' '', hexbase = False\<rparr>"

text \<open>Padding is on the left (the default adjustment), up to the field width.\<close>

definition pad :: "ostream \<Rightarrow> string \<Rightarrow> string" where
  "pad out s = replicate (width out - length s) (fill out) @ s"

text \<open>Every formatted insertion resets the width to 0.\<close>

definition put_str :: "string \<Rightarrow> ostream \<Rightarrow> ostream" where
  "put_str s out = out\<lparr>buf := buf out @ pad out s, width := 0\<rparr>"

definition put_cstr :: "string \<Rightarrow> ostream \<Rightarrow> ostream" where
  "put_cstr p out = put_str (c_str p) out"

text \<open>\<open>std::endl\<close> puts the newline unformatted: no padding, and the width stays.\<close>

definition endl :: "ostream \<Rightarrow> ostream" where
  "endl out = out\<lparr>buf := buf out @ [LF]\<rparr>"

definition setw :: "nat \<Rightarrow> ostream \<Rightarrow> ostream" where
  "setw n out = out\<lparr>width := n\<rparr>"

definition setfill :: "char \<Rightarrow> ostream \<Rightarrow> ostream" where
  "setfill c out = out\<lparr>fill := c\<rparr>"

definition set_hex :: "ostream \<Rightarrow> ostream" where
  "set_hex out = out\<lparr>hexbase := True\<rparr>"

definition digit_char :: "nat \<Rightarrow> char" where
  "digit_char d = (if d < 10 then char_of (48 + d) else char_of (87 + d))"

text \<open>The digits of a number in base \<open>b\<close>, which is 10 or 16 here, most significant first.\<close>

fun num_digits :: "nat \<Rightarrow> nat \<Rightarrow> string" where
  "num_digits b n =
     (if n < b \<or> b < 2 then [digit_char n]
      else num_digits b (n div b) @ [digit_char (n mod b)])"

declare num_digits.simps [simp del]

text \<open>Insertion of a non-negative \<open>int\<close>: its digits in the stream's base, lowercase.\<close>

definition put_int :: "nat \<Rightarrow> ostream \<Rightarrow> ostream" where
  "put_int n out = put_str (num_digits (if hexbase out then 16 else 10) n) out"

text \<open>When the stream is closed, the file holds all that was put into the stream.\<close>

definition close_out :: "string \<Rightarrow> ostream \<Rightarrow> world \<Rightarrow> world" where
  "close_out name out w = w\<lparr>files := (files w)(realpath w (c_str name) \<mapsto> buf out)\<rparr>"

subsection \<open>ValidateArrayName (Main.cpp, lines 252 to 290)\<close>

definition first_char_ok :: "char \<Rightarrow> bool" where
  "first_char_ok c =
     (c = CHR ''_'' \<or>
      (char_val c \<ge> char_val CHR ''A'' \<and> char_val c \<le> char_val CHR ''Z'') \<or>
      (char_val c \<ge> char_val CHR ''a'' \<and> char_val c \<le> char_val CHR ''z''))"

definition body_char_ok :: "char \<Rightarrow> bool" where
  "body_char_ok character =
     (character = CHR ''_'' \<or>
      (char_val character \<ge> char_val CHR ''0'' \<and> char_val character \<le> char_val CHR ''9'') \<or>
      (char_val character \<ge> char_val CHR ''A'' \<and> char_val character \<le> char_val CHR ''Z'') \<or>
      (char_val character \<ge> char_val CHR ''a'' \<and> char_val character \<le> char_val CHR ''z''))"

text \<open>The \<open>for\<close> loop: it stops at the terminator, or breaks at the first bad character.\<close>

fun name_loop :: "bool \<Rightarrow> string \<Rightarrow> bool" where
  "name_loop validName [] = validName"
| "name_loop validName (character # characterPtr) =
     (if character = NUL then validName
      else if \<not> body_char_ok character then False
      else name_loop validName characterPtr)"

text \<open>A piece of text between apostrophes, which a string literal cannot end with.\<close>

definition quoted :: "string \<Rightarrow> string" where
  "quoted s = [CHR 0x27] @ s @ [CHR 0x27]"

definition invalid_name_message :: string where
  "invalid_name_message =
     ''Error: Invalid array name'' @ [LF] @
     ''    Only the following ASCII characters are allowed:'' @ [LF] @
     ''        '' @ quoted ''_'' @ [LF] @
     ''        '' @ quoted ''0'' @ '' to '' @ quoted ''9'' @ [LF] @
     ''        '' @ quoted ''A'' @ '' to '' @ quoted ''Z'' @ [LF] @
     ''        '' @ quoted ''a'' @ '' to '' @ quoted ''z'' @ [LF] @
     ''    The first character can't be '' @ quoted ''0'' @ '' to '' @ quoted ''9'' @ ''.'' @ [LF]"

definition valid_name :: "string \<Rightarrow> bool" where
  "valid_name arrayName =
     name_loop (if \<not> first_char_ok (deref arrayName) then False else True) arrayName"

definition ValidateArrayName :: "string \<Rightarrow> world \<Rightarrow> bool \<times> world" where
  "ValidateArrayName arrayName w =
     (if \<not> valid_name arrayName then (False, w\<lparr>cerr := cerr w @ invalid_name_message\<rparr>)
      else (True, w))"

subsection \<open>ProcessHex (Main.cpp, lines 172 to 250)\<close>

text \<open>
  The locals of the read loop. \<open>count\<close> is a C++ \<open>int\<close>: a 32-bit word read as signed,
  whose increment wraps around, and \<open>%\<close> is the remainder of the truncating division.
\<close>

record hex_state =
  os :: ostream
  count :: "32 word"
  isFirstElement :: bool

definition countPerLine :: int where
  "countPerLine = 8"

text \<open>One turn of the loop, for the byte that \<open>inputFileStream >> std::noskipws >> byte\<close> read.\<close>

definition hex_step :: "hex_state \<Rightarrow> char \<Rightarrow> hex_state" where
  "hex_step st byte =
     (let os1 = (if \<not> isFirstElement st then put_cstr '','' (os st) else os st);
          os2 = (if sint (count st) smod countPerLine = 0
                 then put_cstr ''   '' (endl os1) else os1);
          os3 = put_int (of_char byte)
                  (set_hex (setfill CHR ''0'' (setw 2 (put_cstr '' 0x'' os2))))
      in \<lparr>os = os3, count = count st + 1,
          isFirstElement = (if \<not> isFirstElement st then isFirstElement st else False)\<rparr>)"

text \<open>The loop ends when the extraction fails, which is at the end of the file.\<close>

fun hex_loop :: "hex_state \<Rightarrow> string \<Rightarrow> hex_state" where
  "hex_loop st [] = st"
| "hex_loop st (byte # rest) = hex_loop (hex_step st byte) rest"

definition hex_header :: "string \<Rightarrow> ostream \<Rightarrow> ostream" where
  "hex_header arrayName outputFileStream =
     put_cstr ''[] = {'' (put_cstr arrayName (put_cstr ''static const unsigned char ''
       (endl (endl (put_cstr ''#pragma once'' outputFileStream)))))"

definition hex_footer :: "ostream \<Rightarrow> ostream" where
  "hex_footer outputFileStream = put_cstr ''};'' (endl outputFileStream)"

text \<open>
  \<open>ProcessHex\<close> does not use \<open>argc\<close>, which is left out. It reads \<open>argv[1]\<close>, \<open>argv[2]\<close>
  and \<open>argv[3]\<close>; \<open>main\<close> calls it with exactly four entries in \<open>argv\<close>, and every
  statement below is about such a list. The guard on the names compares their texts
  only. Past it, the output is opened while the input stream is open, and the read
  loop runs after the name is validated: it reads the content that \<open>open_in\<close> gave when
  the two names are two files, and the run is \<open>Reads_Own_Output\<close> when they are one.
\<close>

definition ProcessHex :: "world \<Rightarrow> string list \<Rightarrow> run" where
  "ProcessHex w argv =
     (let inputFileName = argv ! 1;
          outputFileName = argv ! 2;
          arrayName = argv ! 3
      in if CompareStrings inputFileName outputFileName = 0
         then Exit 1 (cerr_line ''Error: Input file and output file can't have the same name'' w)
         else (case open_in w inputFileName of
            None \<Rightarrow> Exit 1 (cerr_line ''Error: Couldn't open input file'' w)
          | Some inputFileStream \<Rightarrow>
             (case open_out w outputFileName of
                None \<Rightarrow> Exit 1 (cerr_line ''Error: Couldn't open output file'' w)
              | Some w1 \<Rightarrow>
                 (case ValidateArrayName arrayName w1 of
                    (valid, w2) \<Rightarrow>
                      if \<not> valid then Exit 1 w2
                      else if same_file w inputFileName outputFileName then Reads_Own_Output
                      else
                        let st = hex_loop
                              \<lparr>os = hex_header arrayName new_ostream, count = 0,
                               isFirstElement = True\<rparr> inputFileStream
                        in Exit 0 (close_out outputFileName (hex_footer (os st)) w2)))))"

subsection \<open>ProcessString (Main.cpp, lines 124 to 170)\<close>

text \<open>
  \<open>std::getline\<close> on the rest of the input: it fails when nothing is left, and
  otherwise gives the characters up to the next \<open>LF\<close> (taken out of the input, not put
  in the line) or up to the end of the file.
\<close>

fun getline :: "string \<Rightarrow> (string \<times> string) option" where
  "getline [] = None"
| "getline (c # cs) =
     (if c = LF then Some ([], cs)
      else (case getline cs of
              None \<Rightarrow> Some ([c], [])
            | Some (line, rest) \<Rightarrow> Some (c # line, rest)))"

function string_loop :: "string \<Rightarrow> ostream \<Rightarrow> ostream" where
  "string_loop inputFileStream outputFileStream =
     (case getline inputFileStream of
        None \<Rightarrow> outputFileStream
      | Some (line, rest) \<Rightarrow> string_loop rest (put_str line outputFileStream))"
  by pat_completeness auto
termination
proof (relation "measure (\<lambda>(inp, out). length inp)")
  show "wf (measure (\<lambda>(inp :: string, out :: ostream). length inp))"
    by simp
next
  fix inputFileStream :: string and outputFileStream :: ostream and x2 line rest
  assume got: "getline inputFileStream = Some x2" and split: "(line, rest) = x2"
  have shorter: "getline inp = Some (l, r) \<Longrightarrow> length r < length inp" for inp l r
    by (induction inp arbitrary: l r) (auto split: if_splits option.splits)
  from got split have "length rest < length inputFileStream"
    by (auto intro: shorter)
  then show "((rest, put_str line outputFileStream), (inputFileStream, outputFileStream))
      \<in> measure (\<lambda>(inp, out). length inp)"
    by simp
qed

declare string_loop.simps [simp del]

definition string_header :: "string \<Rightarrow> ostream \<Rightarrow> ostream" where
  \<open>string_header arrayName outputFileStream =
     put_cstr ''[] = R"('' (put_cstr arrayName (put_cstr ''static const char ''
       (endl (endl (put_cstr ''#pragma once'' outputFileStream)))))\<close>

definition string_footer :: "ostream \<Rightarrow> ostream" where
  \<open>string_footer outputFileStream = put_cstr '')";'' outputFileStream\<close>

text \<open>
  \<open>ProcessString\<close> reads \<open>argv[2]\<close>, \<open>argv[3]\<close> and \<open>argv[4]\<close>; \<open>main\<close> calls it with
  exactly five entries in \<open>argv\<close>.
\<close>

definition ProcessString :: "world \<Rightarrow> string list \<Rightarrow> run" where
  "ProcessString w argv =
     (let inputFileName = argv ! 2;
          outputFileName = argv ! 3;
          arrayName = argv ! 4
      in if CompareStrings inputFileName outputFileName = 0
         then Exit 1 (cerr_line ''Error: Input file and output file can't have the same name'' w)
         else (case open_in w inputFileName of
            None \<Rightarrow> Exit 1 (cerr_line ''Error: Couldn't open input file'' w)
          | Some inputFileStream \<Rightarrow>
             (case open_out w outputFileName of
                None \<Rightarrow> Exit 1 (cerr_line ''Error: Couldn't open output file'' w)
              | Some w1 \<Rightarrow>
                 (case ValidateArrayName arrayName w1 of
                    (valid, w2) \<Rightarrow>
                      if \<not> valid then Exit 1 w2
                      else if same_file w inputFileName outputFileName then Reads_Own_Output
                      else
                        let outputFileStream =
                              string_loop inputFileStream (string_header arrayName new_ostream)
                        in Exit 0 (close_out outputFileName (string_footer outputFileStream) w2)))))"

subsection \<open>main (Main.cpp, lines 22 to 106)\<close>

definition try_help :: "world \<Rightarrow> world" where
  "try_help w = cerr_line ''    Try /? or /help'' w"

definition not_enough_arguments :: "world \<Rightarrow> run" where
  "not_enough_arguments w = Exit 1 (try_help (cerr_line ''ERROR: Not enough arguments'' w))"

definition too_many_arguments :: "world \<Rightarrow> run" where
  "too_many_arguments w = Exit 1 (try_help (cerr_line ''ERROR: Too many arguments'' w))"

definition unrecognized_option :: "world \<Rightarrow> run" where
  "unrecognized_option w = Exit 1 (try_help (cerr_line ''ERROR: Unrecognized option'' w))"

text \<open>
  The twelve lines that the help branch puts on standard output, in the order of the
  source. \<open>PROJECT_NAME\<close> is a macro that the build defines, a string literal: it is a
  parameter here.
\<close>

definition print_help :: "string \<Rightarrow> world \<Rightarrow> world" where
  "print_help PROJECT_NAME w =
     cout_line ''    /? or /help             Displays this help message.''
    (cout_line ''    /s or /string           Store the data as a static const char* string instead.''
    (cout_line ''Options:''
    (cout_line []
    (cout_line ''    By default the data is stored into a static const char array as hex values.''
    (cout_line ''    The output file is formatted as a C++ header file.''
    (cout_line ''    If the output file does not exist, it is created; otherwise it is overwritten.''
    (cout_line ''    This program copies data from the input file into the output file.''
    (cout_line ''Description:''
    (cout_line []
    (cout_line (''    ./'' @ c_str PROJECT_NAME @
                '' [option] <input_file> <output_file> <array_name>'')
    (cout_line ''Usage:'' w)))))))))))"

text \<open>\<open>argc\<close> is the length of \<open>argv\<close>, whose element 0 is the name of the program.\<close>

definition main :: "string \<Rightarrow> world \<Rightarrow> string list \<Rightarrow> run" where
  "main PROJECT_NAME w argv =
     (let argc = length argv
      in if argc < 2 then not_enough_arguments w
         else if CompareStrings (argv ! 1) ''/?'' = 0 \<or>
                 CompareStrings (argv ! 1) ''/help'' = 0
         then (if argc > 2 then too_many_arguments w
               else Exit 0 (print_help PROJECT_NAME w))
         else if CompareStrings (argv ! 1) ''/s'' = 0 \<or>
                 CompareStrings (argv ! 1) ''/string'' = 0
         then (if argc < 5 then not_enough_arguments w
               else if argc > 5 then too_many_arguments w
               else ProcessString w argv)
         else if deref (argv ! 1) = CHR ''/'' then unrecognized_option w
         else if argc < 4 then not_enough_arguments w
         else if argc > 4 then too_many_arguments w
         else ProcessHex w argv)"

section \<open>Reference definitions\<close>

text \<open>
  The definitions of this section are written from the specification, not from the
  code: the theorems below compare the code with them.
\<close>

definition is_letter :: "char \<Rightarrow> bool" where
  "is_letter c = (c \<in> set ''ABCDEFGHIJKLMNOPQRSTUVWXYZabcdefghijklmnopqrstuvwxyz'')"

definition is_digit :: "char \<Rightarrow> bool" where
  "is_digit c = (c \<in> set ''0123456789'')"

text \<open>The grammar \<open>[A-Za-z_][A-Za-z0-9_]*\<close>.\<close>

definition matches_identifier :: "string \<Rightarrow> bool" where
  "matches_identifier s =
     (case s of
        [] \<Rightarrow> False
      | c # cs \<Rightarrow> (is_letter c \<or> c = CHR ''_'') \<and>
                 list_all (\<lambda>d. is_letter d \<or> is_digit d \<or> d = CHR ''_'') cs)"

text \<open>A byte as \<open>0x\<close> and two lowercase hexadecimal digits.\<close>

definition lower_hex :: "nat \<Rightarrow> char" where
  "lower_hex d = ''0123456789abcdef'' ! (d mod 16)"

definition hex_literal :: "char \<Rightarrow> string" where
  "hex_literal b = ''0x'' @ [lower_hex (of_char b div 16), lower_hex (of_char b mod 16)]"

text \<open>
  The array body, element by element: a comma before every element but the first, a
  newline and three spaces before every element whose position is a multiple of 8.
\<close>

fun hex_elements :: "nat \<Rightarrow> string \<Rightarrow> string" where
  "hex_elements i [] = []"
| "hex_elements i (b # bs) =
     (if i = 0 then [] else '','') @ (if i mod 8 = 0 then LF # ''   '' else []) @
     '' '' @ hex_literal b @ hex_elements (Suc i) bs"

text \<open>
  Reading an array body back: every \<open>0x\<close> followed by two hexadecimal digits is a byte,
  and everything else is skipped.
\<close>

definition is_hex_digit :: "char \<Rightarrow> bool" where
  "is_hex_digit c = (c \<in> set ''0123456789abcdef'')"

definition hex_value :: "char \<Rightarrow> nat" where
  "hex_value c = (if is_digit c then of_char c - 48 else of_char c - 87)"

fun decode_hex :: "string \<Rightarrow> string" where
  "decode_hex (z # x # h # l # rest) =
     (if z = CHR ''0'' \<and> x = CHR ''x'' \<and> is_hex_digit h \<and> is_hex_digit l
      then char_of (16 * hex_value h + hex_value l) # decode_hex rest
      else decode_hex (x # h # l # rest))"
| "decode_hex s = []"

text \<open>The lines of a text, without their terminating \<open>LF\<close>; the last one may lack it.\<close>

fun lines_of :: "string \<Rightarrow> string list" where
  "lines_of [] = []"
| "lines_of (c # cs) =
     (if c = LF then [] # lines_of cs
      else (case lines_of cs of [] \<Rightarrow> [[c]] | l # ls \<Rightarrow> (c # l) # ls))"

text \<open>
  The lines of a text when a line ends with a line-terminator sequence, \<open>CR LF\<close> or \<open>LF\<close>,
  that is not part of the line.
\<close>

definition CR :: char where
  "CR = CHR 0x0D"

fun text_lines :: "string \<Rightarrow> string list" where
  "text_lines [] = []"
| "text_lines [c] = (if c = LF then [[]] else [[c]])"
| "text_lines (c # d # cs) =
     (if c = CR \<and> d = LF then [] # text_lines cs
      else if c = LF then [] # text_lines (d # cs)
      else (case text_lines (d # cs) of [] \<Rightarrow> [[c]] | l # ls \<Rightarrow> (c # l) # ls))"

section \<open>What the encoders write\<close>

text \<open>The text that the read loop of \<open>ProcessHex\<close> appends to the output.\<close>

definition hex_body :: "string \<Rightarrow> string" where
  "hex_body bytes =
     buf (os (hex_loop \<lparr>os = new_ostream, count = 0, isFirstElement = True\<rparr> bytes))"

text \<open>The text that the read loop of \<open>ProcessString\<close> appends to the output.\<close>

definition string_payload :: "string \<Rightarrow> string" where
  "string_payload input = buf (string_loop input new_ostream)"

section \<open>Comparing C strings\<close>

lemma char_val_inj: "(char_val a = char_val b) = (a = b)"
proof -
  have "(of_char a :: int) < 256" "(of_char b :: int) < 256" "0 \<le> (of_char a :: int)" "0 \<le> (of_char b :: int)"
    by (simp_all add: of_char_def horner_sum_bit_eq_take_bit) 
  then have "char_val a = char_val b \<Longrightarrow> (of_char a :: int) = of_char b"
    by (auto simp: char_val_def split: if_splits)
  then show ?thesis by auto
qed

lemma compare_tail_zero: "(compare_tail a b = 0) = (a = b)"
  by (auto simp: compare_tail_def char_val_inj)

lemma deref_Nil [simp]: "deref [] = NUL"
  by (simp add: deref_def)

lemma deref_Cons [simp]: "deref (c # cs) = c"
  by (simp add: deref_def)

lemma c_str_empty: "(c_str s = []) = (deref s = NUL)"
  by (cases s) auto

lemma c_str_empty_sym: "([] = c_str s) = (NUL = deref s)"
  by (cases s) auto

lemma CompareStrings_zero: "(CompareStrings a b = 0) = (c_str a = c_str b)"
  by (induction a b rule: CompareStrings.induct) (auto simp: compare_tail_zero c_str_empty c_str_empty_sym)


section \<open>The name validator\<close>

lemma first_char_ok_iff: "first_char_ok c = (is_letter c \<or> c = CHR ''_'')"
  by (cases c) (simp add: first_char_ok_def is_letter_def char_val_def)

lemma body_char_ok_iff: "body_char_ok c = (is_letter c \<or> is_digit c \<or> c = CHR ''_'')"
  by (cases c) (simp add: body_char_ok_def is_letter_def is_digit_def char_val_def)

lemma c_str_id: "NUL \<notin> set s \<Longrightarrow> c_str s = s"
  by (induction s) auto

lemma name_loop_iff: "name_loop v s = (v \<and> list_all body_char_ok (c_str s))"
  by (induction s) auto

lemma first_char_not_NUL: "\<not> first_char_ok NUL"
  by (simp add: first_char_ok_def NUL_def char_val_def)

lemma deref_c_str: "deref s = deref (c_str s)"
  by (cases s) (auto simp: deref_def)

lemma valid_name_iff: "valid_name s = matches_identifier (c_str s)"
proof (cases "c_str s")
  case Nil
  then have "deref s = NUL"
    using deref_c_str [of s] by (simp add: deref_def)
  then show ?thesis
    using Nil by (simp add: valid_name_def matches_identifier_def name_loop_iff first_char_not_NUL)
next
  case (Cons c cs)
  then have "deref s = c"
    using deref_c_str [of s] by (simp add: deref_def)
  then show ?thesis
    using Cons
    by (auto simp: valid_name_def matches_identifier_def name_loop_iff first_char_ok_iff
        body_char_ok_iff list_all_iff)
qed

text \<open>
  Claim C3. The validator answers valid exactly for the names of the grammar
  \<open>[A-Za-z_][A-Za-z0-9_]*\<close>: the first character is a letter or an underscore, every
  character is a letter, a digit or an underscore. It reads its argument as a C string,
  up to the terminator, so the statement is about \<open>c_str arrayName\<close>, which is
  \<open>arrayName\<close> itself when no \<open>NUL\<close> occurs in it. The empty name is invalid, and it is
  the check of the first character that rejects it: the character it reads is the
  terminating \<open>NUL\<close>.
\<close>

theorem ValidateArrayName_characterization:
  "(fst (ValidateArrayName arrayName w) \<longleftrightarrow> matches_identifier (c_str arrayName)) \<and>
   (NUL \<notin> set arrayName \<longrightarrow>
      (fst (ValidateArrayName arrayName w) \<longleftrightarrow> matches_identifier arrayName)) \<and>
   \<not> fst (ValidateArrayName [] w) \<and> deref [] = NUL \<and> \<not> first_char_ok (deref [])"
  by (simp add: ValidateArrayName_def valid_name_iff c_str_id matches_identifier_def
      deref_def first_char_not_NUL)

theorem ValidateArrayName_characterization_witness:
  "NUL \<notin> set ''myData'' \<and>
   fst (ValidateArrayName ''myData''
     \<lparr>realpath = (\<lambda>p. p), files = Map.empty, writable = (\<lambda>p. True), cout = [], cerr = []\<rparr>) \<and>
   matches_identifier ''myData'' \<and>
   NUL \<notin> set ''9lives'' \<and>
   \<not> fst (ValidateArrayName ''9lives''
     \<lparr>realpath = (\<lambda>p. p), files = Map.empty, writable = (\<lambda>p. True), cout = [], cerr = []\<rparr>) \<and>
   \<not> matches_identifier ''9lives''"
  using ValidateArrayName_characterization [of "''myData''"
      "\<lparr>realpath = (\<lambda>p. p), files = Map.empty, writable = (\<lambda>p. True), cout = [], cerr = []\<rparr>"]
    ValidateArrayName_characterization [of "''9lives''"
      "\<lparr>realpath = (\<lambda>p. p), files = Map.empty, writable = (\<lambda>p. True), cout = [], cerr = []\<rparr>"]
  by (simp add: NUL_def matches_identifier_def is_letter_def is_digit_def)

section \<open>The hex encoder\<close>

subsection \<open>Digits and the line counter\<close>

lemma digit_table: "list_all (\<lambda>d. digit_char d = lower_hex d) [0..<16]"
  by code_simp

lemma digit_char_lower_hex: "d < 16 \<Longrightarrow> digit_char d = lower_hex d"
  using digit_table by (simp add: list_all_iff)

lemma lower_hex_table:
  "list_all (\<lambda>d. is_hex_digit (lower_hex d) \<and> hex_value (lower_hex d) = d \<and>
     lower_hex d \<noteq> LF \<and> lower_hex d \<noteq> CHR '','') [0..<16]"
  by code_simp

lemma lower_hex_mod: "lower_hex (d mod 16) = lower_hex d"
  by (simp add: lower_hex_def)

lemma lower_hex_props:
  "is_hex_digit (lower_hex d) \<and> hex_value (lower_hex d) = d mod 16 \<and>
   lower_hex d \<noteq> LF \<and> lower_hex d \<noteq> CHR '',''"
proof -
  have "d mod 16 \<in> set [0..<16]" by simp
  with lower_hex_table show ?thesis
    unfolding list_all_iff lower_hex_mod [of d, symmetric] by blast
qed

lemma num_digits_byte:
  "n < 256 \<Longrightarrow> num_digits 16 n =
     (if n < 16 then [digit_char n] else [digit_char (n div 16), digit_char (n mod 16)])"
proof -
  assume "n < 256"
  then have "n div 16 < 16" by arith
  then show ?thesis
    by (simp add: num_digits.simps [of 16 n] num_digits.simps [of 16 "n div 16"])
qed

lemma of_char_less_256: "(of_char b :: nat) < 256"
  by (metis of_char_mod_256 mod_less_divisor zero_less_numeral)

lemma pad_hex_byte:
  "width s = 2 \<Longrightarrow> fill s = CHR ''0'' \<Longrightarrow>
   pad s (num_digits 16 (of_char b)) = [lower_hex (of_char b div 16), lower_hex (of_char b mod 16)]"
proof -
  assume a: "width s = 2" "fill s = CHR ''0''"
  let ?n = "of_char b :: nat"
  have n: "?n < 256" by (rule of_char_less_256)
  then have hi: "?n div 16 < 16" by arith
  have lo: "?n mod 16 < 16" by simp
  have z: "lower_hex 0 = CHR ''0''" by (simp add: lower_hex_def)
  show ?thesis
  proof (cases "?n < 16")
    case True
    then show ?thesis
      using a n by (simp add: pad_def num_digits_byte digit_char_lower_hex z)
  next
    case False
    then show ?thesis
      using a n hi lo by (simp add: pad_def num_digits_byte digit_char_lower_hex)
  qed
qed

lemma wrap_mod_8: "(((int k + 2 ^ 31) mod 2 ^ 32 - 2 ^ 31) mod 8 = 0) = (int k mod 8 = 0)"
proof -
  have d: "(8::int) dvd 2 ^ 32" by simp
  have "((int k + 2 ^ 31) mod 2 ^ 32 - 2 ^ 31) mod 8 =
      (((int k + 2 ^ 31) mod 2 ^ 32) mod 8 - 2 ^ 31 mod 8) mod 8"
    by (simp only: mod_diff_eq)
  also have "\<dots> = ((int k + 2 ^ 31) mod 8 - 2 ^ 31 mod 8) mod 8"
    by (simp only: mod_mod_cancel [OF d])
  also have "\<dots> = (int k + 2 ^ 31 - 2 ^ 31) mod 8"
    by (simp only: mod_diff_eq)
  finally show ?thesis by simp
qed

lemma count_smod: "(sint (of_nat k :: 32 word) smod countPerLine = 0) = (k mod 8 = 0)"
proof -
  have s: "sint (of_nat k :: 32 word) = (int k + 2 ^ 31) mod 2 ^ 32 - 2 ^ 31"
    using int_word_sint [of "int k", where 'a = 32] by simp
  have "(j smod 8 = 0) = (j mod 8 = 0)" for j :: int
    by (auto simp: signed_modulo_int_def sgn_if abs_if)
  then have "(sint (of_nat k :: 32 word) smod countPerLine = 0) =
      (sint (of_nat k :: 32 word) mod 8 = 0)"
    by (simp add: countPerLine_def)
  also have "\<dots> = (int k mod 8 = 0)"
    unfolding s by (rule wrap_mod_8)
  also have "\<dots> = (k mod 8 = 0)"
    by presburger
  finally show ?thesis .
qed

lemma pad_width_0: "width s = 0 \<Longrightarrow> pad s x = x"
  by (simp add: pad_def)

lemma hex_step_eq:
  assumes "width (os st) = 0" and "count st = of_nat k" and "isFirstElement st = (k = 0)"
  shows "hex_step st b =
    \<lparr>os = (os st)\<lparr>buf := buf (os st) @ (if k = 0 then [] else '','') @
            (if k mod 8 = 0 then LF # ''   '' else []) @ '' '' @ hex_literal b,
          width := 0, fill := CHR ''0'', hexbase := True\<rparr>,
     count = of_nat (Suc k), isFirstElement = False\<rparr>"
  using assms
  by (simp add: hex_step_def Let_def count_smod put_cstr_def put_str_def endl_def setw_def
      setfill_def set_hex_def put_int_def pad_hex_byte hex_literal_def NUL_def pad_width_0)

lemma hex_loop_buf:
  "width (os st) = 0 \<Longrightarrow> count st = of_nat k \<Longrightarrow> isFirstElement st = (k = 0) \<Longrightarrow>
   buf (os (hex_loop st bytes)) = buf (os st) @ hex_elements k bytes \<and>
   width (os (hex_loop st bytes)) = 0"
proof (induction bytes arbitrary: st k)
  case Nil
  then show ?case by simp
next
  case (Cons b bytes)
  let ?st = "hex_step st b"
  have e: "?st = \<lparr>os = (os st)\<lparr>buf := buf (os st) @ (if k = 0 then [] else '','') @
            (if k mod 8 = 0 then LF # ''   '' else []) @ '' '' @ hex_literal b,
          width := 0, fill := CHR ''0'', hexbase := True\<rparr>,
     count = of_nat (Suc k), isFirstElement = False\<rparr>"
    using Cons.prems by (rule hex_step_eq)
  have "width (os ?st) = 0" "count ?st = of_nat (Suc k)" "isFirstElement ?st = (Suc k = 0)"
    unfolding e by simp_all
  from Cons.IH [OF this] show ?case
    unfolding hex_loop.simps e by simp
qed

lemma hex_body_eq: "hex_body bytes = hex_elements 0 bytes"
  using hex_loop_buf [of "\<lparr>os = new_ostream, count = 0, isFirstElement = True\<rparr>" 0 bytes]
  by (simp add: hex_body_def new_ostream_def)

subsection \<open>Separators of the array body\<close>

lemma LF_neq:
  "CHR '','' \<noteq> LF" "CHR '' '' \<noteq> LF" "LF \<noteq> CHR '',''" "LF \<noteq> CHR ''0''" "LF \<noteq> CHR '' ''"
  "CHR ''0'' \<noteq> LF" "CHR ''x'' \<noteq> LF"
  by (simp_all add: LF_def)

lemma hex_literal_no_LF: "filter (\<lambda>c. c = LF) (hex_literal b) = []"
  using lower_hex_props [of "of_char b div 16"] lower_hex_props [of "of_char b mod 16"]
  by (simp add: hex_literal_def LF_neq)

lemma hex_literal_no_comma: "filter (\<lambda>c. c = CHR '','') (hex_literal b) = []"
  using lower_hex_props [of "of_char b div 16"] lower_hex_props [of "of_char b mod 16"]
  by (simp add: hex_literal_def)

lemma count_LF_step:
  "length (filter (\<lambda>c. c = LF) (hex_elements k (b # bytes))) =
      (if k mod 8 = 0 then 1 else 0) + length (filter (\<lambda>c. c = LF) (hex_elements (Suc k) bytes))"
  by (simp add: hex_literal_no_LF LF_neq)

lemma count_comma_step:
  "length (filter (\<lambda>c. c = CHR '','') (hex_elements k (b # bytes))) =
      (if k = 0 then 0 else 1) + length (filter (\<lambda>c. c = CHR '','') (hex_elements (Suc k) bytes))"
  by (simp add: hex_literal_no_comma LF_neq)

lemma div8_at_multiple: "k mod 8 = 0 \<Longrightarrow> (Suc k + 7) div 8 = Suc ((k + 7) div 8)" for k :: nat
proof -
  assume "k mod 8 = 0"
  then have "8 dvd k" by (simp add: dvd_eq_mod_eq_0)
  then obtain q where "k = 8 * q" by (rule dvdE)
  then show ?thesis by simp
qed

lemma div8_between: "k mod 8 \<noteq> 0 \<Longrightarrow> (Suc k + 7) div 8 = (k + 7) div 8" for k :: nat
proof -
  assume a: "k mod 8 \<noteq> 0"
  have b: "k mod 8 < 8" by simp
  have "(k + 7) div 8 = k div 8 + (k mod 8 + 7) div 8"
    by (simp add: div_add1_eq [of k 7 8])
  moreover have "(k mod 8 + 7) div 8 = 1"
    using a b by (intro div_nat_eqI) simp_all
  moreover have "(Suc k + 7) div 8 = k div 8 + 1"
    by simp
  ultimately show ?thesis by simp
qed

lemma div8_step:
  "(if k mod 8 = 0 then 1 else 0) + ((Suc k + n + 7) div 8 - (Suc k + 7) div 8)
      = (k + Suc n + 7) div 8 - (k + 7) div 8" for k n :: nat
proof -
  define A where "A = (Suc k + n + 7) div 8"
  define B where "B = (k + 7) div 8"
  define C where "C = (Suc k + 7) div 8"
  have eq: "(k + Suc n + 7) div 8 = A" by (simp add: A_def)
  have 1: "k mod 8 = 0 \<Longrightarrow> C = Suc B" unfolding B_def C_def by (rule div8_at_multiple)
  have 2: "k mod 8 \<noteq> 0 \<Longrightarrow> C = B" unfolding B_def C_def by (rule div8_between)
  have 3: "C \<le> A" unfolding A_def C_def by (rule div_le_mono) simp
  have "(if k mod 8 = 0 then 1 else 0) + (A - C) = A - B"
    using 1 2 3 by (cases "k mod 8 = 0") auto
  then show ?thesis
    unfolding eq A_def [symmetric] B_def [symmetric] C_def [symmetric] .
qed

lemma count_LF_elements:
  "length (filter (\<lambda>c. c = LF) (hex_elements k bytes)) =
     (k + length bytes + 7) div 8 - (k + 7) div 8"
proof (induction bytes arbitrary: k)
  case Nil
  then show ?case by simp
next
  case (Cons b bytes)
  show ?case
    unfolding count_LF_step Cons.IH [of "Suc k"] list.size using div8_step [of k "length bytes"]
    by simp
qed

lemma count_comma_elements:
  "length (filter (\<lambda>c. c = CHR '','') (hex_elements k bytes)) =
     (if k = 0 then length bytes - 1 else length bytes)"
proof (induction bytes arbitrary: k)
  case Nil
  then show ?case by simp
next
  case (Cons b bytes)
  show ?case
    unfolding count_comma_step Cons.IH [of "Suc k"] by simp
qed

subsection \<open>Reading the array body back\<close>

lemma last_hex_elements:
  "bytes \<noteq> [] \<Longrightarrow> last (hex_elements k bytes) = lower_hex (of_char (last bytes) mod 16)"
proof (induction bytes arbitrary: k)
  case Nil
  then show ?case by simp
next
  case step: (Cons b bytes)
  show ?case
  proof (cases bytes)
    case Nil
    then show ?thesis by (simp add: hex_literal_def)
  next
    case (Cons b' bytes')
    then have "hex_elements (Suc k) bytes \<noteq> []" by (simp add: hex_literal_def)
    then show ?thesis
      using step.IH [of "Suc k"] Cons by (simp add: hex_literal_def)
  qed
qed

lemma decode_skip: "c \<noteq> CHR ''0'' \<Longrightarrow> decode_hex (c # s) = decode_hex s"
  by (cases "c # s" rule: decode_hex.cases) simp_all


lemma decode_literal:
  "decode_hex (hex_literal b @ rest) = b # decode_hex rest"
proof -
  let ?n = "of_char b :: nat"
  have "?n < 256" by (rule of_char_less_256)
  then have "?n div 16 < 16" by arith
  then have "16 * (?n div 16 mod 16) + ?n mod 16 mod 16 = ?n" by simp
  then show ?thesis
    using lower_hex_props [of "?n div 16"] lower_hex_props [of "?n mod 16"]
    by (simp add: hex_literal_def)
qed

lemma decode_elements: "decode_hex (hex_elements k bytes @ rest) = bytes @ decode_hex rest"
proof (induction bytes arbitrary: k)
  case Nil
  then show ?case by simp
next
  case (Cons b bytes)
  have "decode_hex (hex_elements k (b # bytes) @ rest) =
      decode_hex (hex_literal b @ hex_elements (Suc k) bytes @ rest)"
    by (simp add: decode_skip LF_neq)
  then show ?case
    using Cons.IH [of "Suc k"] by (simp add: decode_literal)
qed

subsection \<open>The file that ProcessHex writes\<close>

lemma hex_header_buf:
  "buf (hex_header name new_ostream) =
     ''#pragma once'' @ [LF, LF] @ ''static const unsigned char '' @ c_str name @ ''[] = {''"
  "width (hex_header name new_ostream) = 0"
  by (simp_all add: hex_header_def new_ostream_def put_cstr_def put_str_def endl_def pad_def NUL_def)

lemma hex_footer_buf: "width s = 0 \<Longrightarrow> buf (hex_footer s) = buf s @ LF # ''};''"
  by (simp add: hex_footer_def put_cstr_def put_str_def endl_def pad_def NUL_def)

lemma hex_file_text:
  "buf (hex_footer (os (hex_loop
      \<lparr>os = hex_header name new_ostream, count = 0, isFirstElement = True\<rparr> bytes))) =
   ''#pragma once'' @ [LF, LF] @ ''static const unsigned char '' @ c_str name @ ''[] = {'' @
   hex_body bytes @ LF # ''};''"
proof -
  let ?st = "hex_loop \<lparr>os = hex_header name new_ostream, count = 0, isFirstElement = True\<rparr> bytes"
  have l: "buf (os ?st) = buf (hex_header name new_ostream) @ hex_elements 0 bytes \<and>
      width (os ?st) = 0"
    using hex_loop_buf [of "\<lparr>os = hex_header name new_ostream, count = 0, isFirstElement = True\<rparr>" 0 bytes]
    by (simp add: hex_header_buf(2))
  then show ?thesis
    by (simp add: hex_footer_buf hex_header_buf(1) hex_body_eq)
qed

lemma two_files_differ:
  "realpath w (c_str inp) \<noteq> realpath w (c_str outp) \<Longrightarrow> CompareStrings inp outp \<noteq> 0"
  by (auto simp add: CompareStrings_zero simp del: CompareStrings.simps)

lemma ProcessHex_success:
  assumes "realpath w (c_str inp) \<noteq> realpath w (c_str outp)"
    and "files w (realpath w (c_str inp)) = Some bytes"
    and "writable w (realpath w (c_str outp))" and "valid_name name"
  shows "ProcessHex w [prog, inp, outp, name] =
    Exit 0 (w\<lparr>files := (files w)(realpath w (c_str outp) \<mapsto>
          ''#pragma once'' @ [LF, LF] @ ''static const unsigned char '' @ c_str name @
          ''[] = {'' @ hex_body bytes @ LF # ''};'')\<rparr>)"
  using assms two_files_differ [OF assms(1)]
  by (simp add: ProcessHex_def open_in_def open_out_def ValidateArrayName_def close_out_def
      same_file_def hex_file_text del: append.simps append_Cons append_Nil CompareStrings.simps)

text \<open>
  Claim C1. Round trip of the hex encoder: reading the emitted array body back (every
  \<open>0x\<close> with its two hexadecimal digits is a byte, anything else is skipped) gives the
  bytes of the input, all of them and in their order, for an input of any length. The
  body is what the read loop appends. When the input and the output are two files, the
  input exists, the output can be written and the name is valid, \<open>ProcessHex\<close> returns 0
  and leaves in the output file the header, this body, a newline and the closing \<open>};\<close>;
  reading the body with that closing line gives the same bytes.
\<close>

theorem hex_round_trip:
  "decode_hex (hex_body bytes) = bytes \<and>
   decode_hex (hex_body bytes @ LF # ''};'') = bytes \<and>
   (realpath w (c_str inp) \<noteq> realpath w (c_str outp) \<and>
    files w (realpath w (c_str inp)) = Some bytes \<and>
    writable w (realpath w (c_str outp)) \<and> valid_name name \<longrightarrow>
      ProcessHex w [prog, inp, outp, name] =
        Exit 0 (w\<lparr>files := (files w)(realpath w (c_str outp) \<mapsto>
              ''#pragma once'' @ [LF, LF] @ ''static const unsigned char '' @ c_str name @
              ''[] = {'' @ hex_body bytes @ LF # ''};'')\<rparr>))"
  using decode_elements [of 0 bytes "[]"] decode_elements [of 0 bytes "LF # ''};''"]
    ProcessHex_success [of w inp outp bytes name prog]
  by (simp add: hex_body_eq)

theorem hex_round_trip_witness:
  "realpath \<lparr>realpath = (\<lambda>p. p), files = [''in.bin'' \<mapsto> ''abcdefghi''], writable = (\<lambda>p. True),
     cout = [], cerr = []\<rparr> (c_str ''in.bin'') \<noteq>
   realpath \<lparr>realpath = (\<lambda>p. p), files = [''in.bin'' \<mapsto> ''abcdefghi''], writable = (\<lambda>p. True),
     cout = [], cerr = []\<rparr> (c_str ''out.h'') \<and>
   valid_name ''myData'' \<and>
   ProcessHex
     \<lparr>realpath = (\<lambda>p. p), files = [''in.bin'' \<mapsto> ''abcdefghi''], writable = (\<lambda>p. True),
       cout = [], cerr = []\<rparr>
     [''prog'', ''in.bin'', ''out.h'', ''myData''] =
   Exit 0
     \<lparr>realpath = (\<lambda>p. p),
      files = [''in.bin'' \<mapsto> ''abcdefghi'',
        ''out.h'' \<mapsto> ''#pragma once'' @ [LF, LF] @ ''static const unsigned char myData[] = {'' @
          LF # ''    0x61, 0x62, 0x63, 0x64, 0x65, 0x66, 0x67, 0x68,'' @
          LF # ''    0x69'' @ LF # ''};''],
      writable = (\<lambda>p. True), cout = [], cerr = []\<rparr> \<and>
   decode_hex (LF # ''    0x61, 0x62, 0x63, 0x64, 0x65, 0x66, 0x67, 0x68,'' @
     LF # ''    0x69'') = ''abcdefghi''"
proof -
  let ?w = "\<lparr>realpath = (\<lambda>p. p), files = [''in.bin'' \<mapsto> ''abcdefghi''],
    writable = (\<lambda>p. True), cout = [], cerr = []\<rparr>"
  have v: "valid_name ''myData''"
    by (simp add: valid_name_iff matches_identifier_def is_letter_def NUL_def)
  have b: "hex_body ''abcdefghi'' =
      LF # ''    0x61, 0x62, 0x63, 0x64, 0x65, 0x66, 0x67, 0x68,'' @ LF # ''    0x69''"
    by (simp add: hex_body_eq hex_literal_def lower_hex_def)
  show ?thesis
    using hex_round_trip [of "''abcdefghi''" ?w "''in.bin''" "''out.h''" "''myData''" "''prog''"] v
    unfolding b by (simp add: NUL_def del: decode_hex.simps)
qed

text \<open>
  Claim C2. Format of the array body. The body is the sequence of the elements, each
  byte as \<open>0x\<close> and exactly two lowercase hexadecimal digits, zero-padded
  (\<open>hex_literal\<close>), after a space. A comma stands before every element but the first,
  and a newline and three spaces before every element whose position, counted from 0,
  is a multiple of 8 (\<open>hex_elements\<close>). So the body has one comma less than bytes and
  \<open>(n + 7) div 8\<close> newlines for \<open>n\<close> bytes, one for each started group of 8, and a
  non-empty body ends with a hexadecimal digit, not with a comma. The line counter is
  a 32-bit \<open>int\<close>; the statement holds for inputs of any length when its increment
  wraps around. When the input and the output are two files, the input exists, the
  output can be written and the name is valid, \<open>ProcessHex\<close> returns 0 and leaves in the
  output file the header, this body, a newline and \<open>};\<close>.
\<close>

theorem hex_element_format:
  "hex_body bytes = hex_elements 0 bytes \<and>
   length (filter (\<lambda>c. c = CHR '','') (hex_body bytes)) = length bytes - 1 \<and>
   length (filter (\<lambda>c. c = LF) (hex_body bytes)) = (length bytes + 7) div 8 \<and>
   (bytes \<noteq> [] \<longrightarrow>
      is_hex_digit (last (hex_body bytes)) \<and> last (hex_body bytes) \<noteq> CHR '','') \<and>
   (realpath w (c_str inp) \<noteq> realpath w (c_str outp) \<and>
    files w (realpath w (c_str inp)) = Some bytes \<and>
    writable w (realpath w (c_str outp)) \<and> valid_name name \<longrightarrow>
      ProcessHex w [prog, inp, outp, name] =
        Exit 0 (w\<lparr>files := (files w)(realpath w (c_str outp) \<mapsto>
              ''#pragma once'' @ [LF, LF] @ ''static const unsigned char '' @ c_str name @
              ''[] = {'' @ hex_body bytes @ LF # ''};'')\<rparr>))"
proof -
  have "bytes \<noteq> [] \<Longrightarrow> is_hex_digit (last (hex_body bytes)) \<and> last (hex_body bytes) \<noteq> CHR '',''"
    using lower_hex_props [of "of_char (last bytes) mod 16"]
    by (simp add: hex_body_eq last_hex_elements)
  then show ?thesis
    using count_comma_elements [of 0 bytes] count_LF_elements [of 0 bytes]
      ProcessHex_success [of w inp outp bytes name prog]
    by (simp add: hex_body_eq)
qed

theorem hex_element_format_witness:
  "''abcdefghi'' \<noteq> [] \<and>
   hex_body ''abcdefghi'' =
     LF # ''    0x61, 0x62, 0x63, 0x64, 0x65, 0x66, 0x67, 0x68,'' @ LF # ''    0x69'' \<and>
   realpath \<lparr>realpath = (\<lambda>p. p), files = [''in.bin'' \<mapsto> ''abcdefghi''], writable = (\<lambda>p. True),
     cout = [], cerr = []\<rparr> (c_str ''in.bin'') \<noteq>
   realpath \<lparr>realpath = (\<lambda>p. p), files = [''in.bin'' \<mapsto> ''abcdefghi''], writable = (\<lambda>p. True),
     cout = [], cerr = []\<rparr> (c_str ''out.h'') \<and>
   valid_name ''myData'' \<and>
   ProcessHex
     \<lparr>realpath = (\<lambda>p. p), files = [''in.bin'' \<mapsto> ''abcdefghi''], writable = (\<lambda>p. True),
       cout = [], cerr = []\<rparr>
     [''prog'', ''in.bin'', ''out.h'', ''myData''] =
   Exit 0
     \<lparr>realpath = (\<lambda>p. p),
      files = [''in.bin'' \<mapsto> ''abcdefghi'',
        ''out.h'' \<mapsto> ''#pragma once'' @ [LF, LF] @ ''static const unsigned char myData[] = {'' @
          LF # ''    0x61, 0x62, 0x63, 0x64, 0x65, 0x66, 0x67, 0x68,'' @
          LF # ''    0x69'' @ LF # ''};''],
      writable = (\<lambda>p. True), cout = [], cerr = []\<rparr>"
proof -
  let ?w = "\<lparr>realpath = (\<lambda>p. p), files = [''in.bin'' \<mapsto> ''abcdefghi''],
    writable = (\<lambda>p. True), cout = [], cerr = []\<rparr>"
  have v: "valid_name ''myData''"
    by (simp add: valid_name_iff matches_identifier_def is_letter_def NUL_def)
  show ?thesis
    using hex_element_format [of "''abcdefghi''" ?w "''in.bin''" "''out.h''" "''myData''" "''prog''"]
      v
    by (simp add: NUL_def hex_literal_def lower_hex_def)
qed

text \<open>
  Claim C9. A zero-byte input. The read loop appends nothing. When the input and the
  output are two files, the input exists and is empty, the output can be written and
  the name is valid, the hex encoder returns 0 and leaves in the output file the
  include guard, the blank line, the declaration of the array and the closing \<open>};\<close>:
  the body is empty, there is no element line, and exactly one newline stands between
  the opening brace and the closing one.
\<close>

theorem hex_empty_input:
  "hex_body [] = [] \<and>
   (realpath w (c_str inp) \<noteq> realpath w (c_str outp) \<and>
    files w (realpath w (c_str inp)) = Some [] \<and>
    writable w (realpath w (c_str outp)) \<and> valid_name name \<longrightarrow>
      ProcessHex w [prog, inp, outp, name] =
        Exit 0 (w\<lparr>files := (files w)(realpath w (c_str outp) \<mapsto>
              ''#pragma once'' @ [LF, LF] @ ''static const unsigned char '' @ c_str name @
              ''[] = {'' @ LF # ''};'')\<rparr>))"
  using ProcessHex_success [of w inp outp "[]" name prog]
  by (simp add: hex_body_eq)

theorem hex_empty_input_witness:
  "realpath \<lparr>realpath = (\<lambda>p. p), files = [''empty.bin'' \<mapsto> []], writable = (\<lambda>p. True),
     cout = [], cerr = []\<rparr> (c_str ''empty.bin'') \<noteq>
   realpath \<lparr>realpath = (\<lambda>p. p), files = [''empty.bin'' \<mapsto> []], writable = (\<lambda>p. True),
     cout = [], cerr = []\<rparr> (c_str ''out.h'') \<and>
   files \<lparr>realpath = (\<lambda>p. p), files = [''empty.bin'' \<mapsto> []], writable = (\<lambda>p. True),
     cout = [], cerr = []\<rparr> ''empty.bin'' = Some [] \<and>
   valid_name ''myData'' \<and>
   ProcessHex
     \<lparr>realpath = (\<lambda>p. p), files = [''empty.bin'' \<mapsto> []], writable = (\<lambda>p. True),
       cout = [], cerr = []\<rparr>
     [''prog'', ''empty.bin'', ''out.h'', ''myData''] =
   Exit 0
     \<lparr>realpath = (\<lambda>p. p),
      files = [''empty.bin'' \<mapsto> [], ''out.h'' \<mapsto>
          ''#pragma once'' @ [LF, LF] @ ''static const unsigned char myData[] = {'' @
          LF # ''};''],
      writable = (\<lambda>p. True), cout = [], cerr = []\<rparr>"
proof -
  let ?w = "\<lparr>realpath = (\<lambda>p. p), files = [''empty.bin'' \<mapsto> []], writable = (\<lambda>p. True),
    cout = [], cerr = []\<rparr>"
  have v: "valid_name ''myData''"
    by (simp add: valid_name_iff matches_identifier_def is_letter_def NUL_def)
  show ?thesis
    using hex_empty_input [of ?w "''empty.bin''" "''out.h''" "''myData''" "''prog''"] v
    by (simp add: NUL_def)
qed

section \<open>The string encoder\<close>

lemma getline_None: "(getline inp = None) = (inp = [])"
  by (cases inp) (auto split: option.splits)

lemma getline_filter:
  "getline inp = Some (line, rest) \<Longrightarrow>
     filter (\<lambda>c. c \<noteq> LF) inp = line @ filter (\<lambda>c. c \<noteq> LF) rest"
proof (induction inp arbitrary: line rest)
  case Nil
  then show ?case by simp
next
  case (Cons c cs)
  show ?case
  proof (cases "c = LF")
    case True
    with Cons.prems show ?thesis by simp
  next
    case False
    show ?thesis
    proof (cases "getline cs")
      case None
      then have "cs = []" by (simp add: getline_None)
      with Cons.prems False None show ?thesis by auto
    next
      case (Some lr)
      obtain l r where lr: "lr = (l, r)" by (cases lr)
      from Cons.IH [of l r] Some lr have "filter (\<lambda>c. c \<noteq> LF) cs = l @ filter (\<lambda>c. c \<noteq> LF) r"
        by simp
      with Cons.prems False Some lr show ?thesis by auto
    qed
  qed
qed

lemma string_loop_buf:
  "width s = 0 \<Longrightarrow>
     buf (string_loop inp s) = buf s @ filter (\<lambda>c. c \<noteq> LF) inp \<and> width (string_loop inp s) = 0"
proof (induction inp s rule: string_loop.induct)
  case (1 inp s)
  show ?case
  proof (cases "getline inp")
    case None
    then have "inp = []" by (simp add: getline_None)
    with "1.prems" show ?thesis by (simp add: string_loop.simps [of "[]"])
  next
    case (Some lr)
    obtain line rest where lr: "lr = (line, rest)" by (cases lr)
    have w: "width (put_str line s) = 0" by (simp add: put_str_def)
    have b: "buf (put_str line s) = buf s @ line"
      using "1.prems" by (simp add: put_str_def pad_def)
    from "1.IH" [OF Some lr [symmetric] w] getline_filter [of inp line rest] Some lr b
    show ?thesis by (simp add: string_loop.simps [of inp])
  qed
qed

lemma string_payload_filter: "string_payload input = filter (\<lambda>c. c \<noteq> LF) input"
  using string_loop_buf [of new_ostream input]
  by (simp add: string_payload_def new_ostream_def)

lemma concat_lines_of: "concat (lines_of input) = filter (\<lambda>c. c \<noteq> LF) input"
  by (induction input) (auto split: list.splits)

lemma string_header_buf:
  \<open>buf (string_header name new_ostream) =
     ''#pragma once'' @ [LF, LF] @ ''static const char '' @ c_str name @ ''[] = R"(''\<close>
  \<open>width (string_header name new_ostream) = 0\<close>
  by (simp_all add: string_header_def new_ostream_def put_cstr_def put_str_def endl_def pad_def
      NUL_def)

lemma string_footer_buf: \<open>width s = 0 \<Longrightarrow> buf (string_footer s) = buf s @ '')";''\<close>
  by (simp add: string_footer_def put_cstr_def put_str_def pad_def NUL_def)

lemma string_file_text:
  \<open>buf (string_footer (string_loop input (string_header name new_ostream))) =
     ''#pragma once'' @ [LF, LF] @ ''static const char '' @ c_str name @ ''[] = R"('' @
     string_payload input @ '')";''\<close>
  using string_loop_buf [of "string_header name new_ostream" input]
  by (simp add: string_header_buf string_footer_buf string_payload_filter)

lemma ProcessString_success:
  assumes "realpath w (c_str inp) \<noteq> realpath w (c_str outp)"
    and "files w (realpath w (c_str inp)) = Some input"
    and "writable w (realpath w (c_str outp))" and "valid_name name"
  shows \<open>ProcessString w [prog, opt, inp, outp, name] =
    Exit 0 (w\<lparr>files := (files w)(realpath w (c_str outp) \<mapsto>
          ''#pragma once'' @ [LF, LF] @ ''static const char '' @ c_str name @ ''[] = R"('' @
          string_payload input @ '')";'')\<rparr>)\<close>
  using assms two_files_differ [OF assms(1)]
  by (simp add: ProcessString_def open_in_def open_out_def ValidateArrayName_def close_out_def
      same_file_def string_file_text
      del: append.simps append_Cons append_Nil CompareStrings.simps)

text \<open>
  Claim C7, as it is stated, fails: with \<open>CR LF\<close> as the line-terminator sequence of the
  input, the carriage return is not stripped. The input is opened in binary mode and
  \<open>std::getline\<close> ends a line at \<open>LF\<close> alone, so for the two lines \<open>ab\<close> and \<open>cd\<close> separated
  by \<open>CR LF\<close> the payload is \<open>ab CR cd\<close>, not \<open>abcd\<close>.
\<close>

theorem string_payload_keeps_CR:
  \<open>ProcessString
     \<lparr>realpath = (\<lambda>p. p), files = [''in.txt'' \<mapsto> ''ab'' @ [CR, LF] @ ''cd''],
       writable = (\<lambda>p. True), cout = [], cerr = []\<rparr>
     [''prog'', ''/s'', ''in.txt'', ''out.h'', ''text''] =
   Exit 0
     \<lparr>realpath = (\<lambda>p. p),
      files = [''in.txt'' \<mapsto> ''ab'' @ [CR, LF] @ ''cd'',
        ''out.h'' \<mapsto> ''#pragma once'' @ [LF, LF] @ ''static const char text[] = R"('' @
          ''ab'' @ [CR] @ ''cd'' @ '')";''],
      writable = (\<lambda>p. True), cout = [], cerr = []\<rparr> \<and>
   text_lines (''ab'' @ [CR, LF] @ ''cd'') = [''ab'', ''cd''] \<and>
   string_payload (''ab'' @ [CR, LF] @ ''cd'') \<noteq> concat (text_lines (''ab'' @ [CR, LF] @ ''cd''))\<close>
proof -
  let ?w = "\<lparr>realpath = (\<lambda>p. p), files = [''in.txt'' \<mapsto> ''ab'' @ [CR, LF] @ ''cd''],
    writable = (\<lambda>p. True), cout = [], cerr = []\<rparr>"
  have v: "valid_name ''text''"
    by (simp add: valid_name_iff matches_identifier_def is_letter_def NUL_def)
  have t: "text_lines (''ab'' @ [CR, LF] @ ''cd'') = [''ab'', ''cd'']"
    by (simp add: CR_def LF_def)
  have q: "string_payload (''ab'' @ [CR, LF] @ ''cd'') = ''ab'' @ [CR] @ ''cd''"
    by (simp add: string_payload_filter CR_def LF_def)
  have r: "realpath ?w (c_str ''in.txt'') \<noteq> realpath ?w (c_str ''out.h'')"
    by (simp add: NUL_def)
  have f: "files ?w (realpath ?w (c_str ''in.txt'')) = Some (''ab'' @ [CR, LF] @ ''cd'')"
    by (simp add: NUL_def)
  have \<open>ProcessString ?w [''prog'', ''/s'', ''in.txt'', ''out.h'', ''text''] =
      Exit 0 (?w\<lparr>files := (files ?w)(realpath ?w (c_str ''out.h'') \<mapsto>
          ''#pragma once'' @ [LF, LF] @ ''static const char '' @ c_str ''text'' @ ''[] = R"('' @
          string_payload (''ab'' @ [CR, LF] @ ''cd'') @ '')";'')\<rparr>)\<close>
    by (rule ProcessString_success [OF r f _ v]) simp
  then show ?thesis
    unfolding q t by (simp add: NUL_def CR_def)
qed

text \<open>
  Claim C7, amended. The text that the read loop puts between \<open>R"(\<close> and \<open>)";\<close> is the
  concatenation of the lines of the input that end at an \<open>LF\<close>, each without that \<open>LF\<close>
  and with nothing put between them; the input \<open>abc LF def LF\<close> gives \<open>abcdef\<close>. A
  carriage return before the \<open>LF\<close> belongs to the line and stays in the payload. When
  the input and the output are two files, the input exists, the output can be written
  and the name is valid, \<open>ProcessString\<close> returns 0 and leaves in the output file the
  header, this payload and \<open>)";\<close>.
\<close>

theorem string_payload_lines:
  \<open>string_payload input = concat (lines_of input) \<and>
   string_payload (''abc'' @ [LF] @ ''def'' @ [LF]) = ''abcdef'' \<and>
   string_payload (''ab'' @ [CR, LF] @ ''cd'') = ''ab'' @ [CR] @ ''cd'' \<and>
   (realpath w (c_str inp) \<noteq> realpath w (c_str outp) \<and>
    files w (realpath w (c_str inp)) = Some input \<and>
    writable w (realpath w (c_str outp)) \<and> valid_name name \<longrightarrow>
      ProcessString w [prog, opt, inp, outp, name] =
        Exit 0 (w\<lparr>files := (files w)(realpath w (c_str outp) \<mapsto>
              ''#pragma once'' @ [LF, LF] @ ''static const char '' @ c_str name @
              ''[] = R"('' @ concat (lines_of input) @ '')";'')\<rparr>))\<close>
  using ProcessString_success [of w inp outp input name prog opt]
  by (simp add: string_payload_filter concat_lines_of LF_def CR_def)

theorem string_payload_lines_witness:
  \<open>realpath \<lparr>realpath = (\<lambda>p. p), files = [''in.txt'' \<mapsto> ''abc'' @ [LF] @ ''def'' @ [LF]],
     writable = (\<lambda>p. True), cout = [], cerr = []\<rparr> (c_str ''in.txt'') \<noteq>
   realpath \<lparr>realpath = (\<lambda>p. p), files = [''in.txt'' \<mapsto> ''abc'' @ [LF] @ ''def'' @ [LF]],
     writable = (\<lambda>p. True), cout = [], cerr = []\<rparr> (c_str ''out.h'') \<and>
   valid_name ''text'' \<and>
   lines_of (''abc'' @ [LF] @ ''def'' @ [LF]) = [''abc'', ''def''] \<and>
   ProcessString
     \<lparr>realpath = (\<lambda>p. p), files = [''in.txt'' \<mapsto> ''abc'' @ [LF] @ ''def'' @ [LF]],
       writable = (\<lambda>p. True), cout = [], cerr = []\<rparr>
     [''prog'', ''/s'', ''in.txt'', ''out.h'', ''text''] =
   Exit 0
     \<lparr>realpath = (\<lambda>p. p),
      files = [''in.txt'' \<mapsto> ''abc'' @ [LF] @ ''def'' @ [LF],
        ''out.h'' \<mapsto> ''#pragma once'' @ [LF, LF] @ ''static const char text[] = R"(abcdef)";''],
      writable = (\<lambda>p. True), cout = [], cerr = []\<rparr>\<close>
proof -
  let ?w = "\<lparr>realpath = (\<lambda>p. p), files = [''in.txt'' \<mapsto> ''abc'' @ [LF] @ ''def'' @ [LF]],
    writable = (\<lambda>p. True), cout = [], cerr = []\<rparr>"
  have v: "valid_name ''text''"
    by (simp add: valid_name_iff matches_identifier_def is_letter_def NUL_def)
  have l: "lines_of (''abc'' @ [LF] @ ''def'' @ [LF]) = [''abc'', ''def'']"
    by (simp add: LF_def)
  show ?thesis
    using string_payload_lines [of "''abc'' @ [LF] @ ''def'' @ [LF]" ?w "''in.txt''" "''out.h''"
        "''text''" "''prog''" "''/s''"] v
    unfolding l by (simp add: NUL_def)
qed

text \<open>
  Claim C10. The last line of the input is kept when no newline ends it: for every
  input the payload is the input without its \<open>LF\<close> bytes, so a text after the last \<open>LF\<close>
  is in the payload as it is. When the input and the output are two files, the input
  exists, the output can be written and the name is valid, \<open>ProcessString\<close> returns 0
  and leaves in the output file the header, the input without its \<open>LF\<close> bytes, and the
  closing \<open>)";\<close>.
\<close>

theorem string_payload_removes_LF:
  \<open>string_payload input = filter (\<lambda>c. c \<noteq> LF) input \<and>
   (LF \<notin> set tail \<longrightarrow> string_payload (input @ tail) = string_payload input @ tail) \<and>
   (realpath w (c_str inp) \<noteq> realpath w (c_str outp) \<and>
    files w (realpath w (c_str inp)) = Some input \<and>
    writable w (realpath w (c_str outp)) \<and> valid_name name \<longrightarrow>
      ProcessString w [prog, opt, inp, outp, name] =
        Exit 0 (w\<lparr>files := (files w)(realpath w (c_str outp) \<mapsto>
              ''#pragma once'' @ [LF, LF] @ ''static const char '' @ c_str name @
              ''[] = R"('' @ filter (\<lambda>c. c \<noteq> LF) input @ '')";'')\<rparr>))\<close>
proof -
  have "LF \<notin> set tail \<Longrightarrow> filter (\<lambda>c. c \<noteq> LF) tail = tail"
    by (induction tail) auto
  then show ?thesis
    using ProcessString_success [of w inp outp input name prog opt]
    by (simp add: string_payload_filter)
qed

theorem string_payload_removes_LF_witness:
  \<open>LF \<notin> set ''def'' \<and>
   string_payload ((''abc'' @ [LF]) @ ''def'') = ''abcdef'' \<and>
   realpath \<lparr>realpath = (\<lambda>p. p), files = [''in.txt'' \<mapsto> (''abc'' @ [LF]) @ ''def''],
     writable = (\<lambda>p. True), cout = [], cerr = []\<rparr> (c_str ''in.txt'') \<noteq>
   realpath \<lparr>realpath = (\<lambda>p. p), files = [''in.txt'' \<mapsto> (''abc'' @ [LF]) @ ''def''],
     writable = (\<lambda>p. True), cout = [], cerr = []\<rparr> (c_str ''out.h'') \<and>
   valid_name ''text'' \<and>
   ProcessString
     \<lparr>realpath = (\<lambda>p. p), files = [''in.txt'' \<mapsto> (''abc'' @ [LF]) @ ''def''],
       writable = (\<lambda>p. True), cout = [], cerr = []\<rparr>
     [''prog'', ''/string'', ''in.txt'', ''out.h'', ''text''] =
   Exit 0
     \<lparr>realpath = (\<lambda>p. p),
      files = [''in.txt'' \<mapsto> (''abc'' @ [LF]) @ ''def'',
        ''out.h'' \<mapsto> ''#pragma once'' @ [LF, LF] @ ''static const char text[] = R"(abcdef)";''],
      writable = (\<lambda>p. True), cout = [], cerr = []\<rparr>\<close>
proof -
  let ?w = "\<lparr>realpath = (\<lambda>p. p), files = [''in.txt'' \<mapsto> (''abc'' @ [LF]) @ ''def''],
    writable = (\<lambda>p. True), cout = [], cerr = []\<rparr>"
  have v: "valid_name ''text''"
    by (simp add: valid_name_iff matches_identifier_def is_letter_def NUL_def)
  show ?thesis
    using string_payload_removes_LF [of "''abc'' @ [LF]" "''def''" ?w "''in.txt''" "''out.h''"
        "''text''" "''prog''" "''/string''"]
      string_payload_removes_LF [of "(''abc'' @ [LF]) @ ''def''" "[]" ?w "''in.txt''" "''out.h''"
        "''text''" "''prog''" "''/string''"] v
    by (simp add: NUL_def LF_def)
qed

section \<open>The dispatcher and the guards of the encoders\<close>

lemma exit_worlds:
  "not_enough_arguments w =
     Exit 1 (w\<lparr>cerr := cerr w @ ''ERROR: Not enough arguments'' @ [LF] @
                      ''    Try /? or /help'' @ [LF]\<rparr>)"
  "too_many_arguments w =
     Exit 1 (w\<lparr>cerr := cerr w @ ''ERROR: Too many arguments'' @ [LF] @
                      ''    Try /? or /help'' @ [LF]\<rparr>)"
  "unrecognized_option w =
     Exit 1 (w\<lparr>cerr := cerr w @ ''ERROR: Unrecognized option'' @ [LF] @
                      ''    Try /? or /help'' @ [LF]\<rparr>)"
  by (simp_all add: not_enough_arguments_def too_many_arguments_def unrecognized_option_def
      try_help_def cerr_line_def)

lemma c_str_lit:
  "c_str ''/?'' = ''/?''" "c_str ''/help'' = ''/help''" "c_str ''/s'' = ''/s''"
  "c_str ''/string'' = ''/string''"
  by (simp_all add: NUL_def)

lemma print_help_text:
  "print_help PROJECT_NAME w =
     w\<lparr>cout := cout w @
       ''Usage:'' @ [LF] @
       ''    ./'' @ c_str PROJECT_NAME @
         '' [option] <input_file> <output_file> <array_name>'' @ [LF] @
       [LF] @
       ''Description:'' @ [LF] @
       ''    This program copies data from the input file into the output file.'' @ [LF] @
       ''    If the output file does not exist, it is created; otherwise it is overwritten.'' @ [LF] @
       ''    The output file is formatted as a C++ header file.'' @ [LF] @
       ''    By default the data is stored into a static const char array as hex values.'' @ [LF] @
       [LF] @
       ''Options:'' @ [LF] @
       ''    /s or /string           Store the data as a static const char* string instead.'' @ [LF] @
       ''    /? or /help             Displays this help message.'' @ [LF]\<rparr>"
  by (simp add: print_help_def cout_line_def del: c_str.simps)

lemma help_option_runs:
  "main PROJECT_NAME w [prog, ''/?''] = Exit 0 (print_help PROJECT_NAME w)"
  "main PROJECT_NAME w [prog, ''/help''] = Exit 0 (print_help PROJECT_NAME w)"
  "main PROJECT_NAME w (prog # ''/?'' # extra # rest) = too_many_arguments w"
  "main PROJECT_NAME w (prog # ''/help'' # extra # rest) = too_many_arguments w"
  by (simp_all add: main_def CompareStrings_zero c_str_lit del: CompareStrings.simps c_str.simps)

lemma c_str_deref: "c_str a = x # xs \<Longrightarrow> deref a = x"
  by (cases a) (auto split: if_splits)

lemma main_string_mode:
  assumes "c_str a = ''/s'' \<or> c_str a = ''/string''"
  shows "main PROJECT_NAME w (prog # a # rest) =
    (if length rest < 3 then not_enough_arguments w
     else if length rest > 3 then too_many_arguments w
     else ProcessString w (prog # a # rest))"
  using assms
  by (auto simp add: main_def CompareStrings_zero c_str_lit simp del: CompareStrings.simps c_str.simps)

lemma main_unrecognized:
  assumes "deref a = CHR ''/''" and "c_str a \<notin> {''/?'', ''/help'', ''/s'', ''/string''}"
  shows "main PROJECT_NAME w (prog # a # rest) = unrecognized_option w"
  using assms
  by (auto simp add: main_def CompareStrings_zero c_str_lit simp del: CompareStrings.simps c_str.simps)

lemma main_hex_mode:
  assumes "deref a \<noteq> CHR ''/''"
  shows "main PROJECT_NAME w (prog # a # rest) =
    (if length rest < 2 then not_enough_arguments w
     else if length rest > 2 then too_many_arguments w
     else ProcessHex w (prog # a # rest))"
proof -
  have "c_str a \<notin> {''/?'', ''/help'', ''/s'', ''/string''}"
    using assms by (auto dest: c_str_deref)
  then show ?thesis
    using assms
    by (auto simp add: main_def CompareStrings_zero c_str_lit
        simp del: CompareStrings.simps c_str.simps)
qed

lemma main_no_argument:
  "main PROJECT_NAME w [] = not_enough_arguments w"
  "main PROJECT_NAME w [prog] = not_enough_arguments w"
  by (simp_all add: main_def)

lemma same_name_hex:
  "ProcessHex w [prog, path, path, name] =
     Exit 1 (w\<lparr>cerr := cerr w @
       ''Error: Input file and output file can't have the same name'' @ [LF]\<rparr>)"
  by (simp add: ProcessHex_def CompareStrings_zero cerr_line_def del: CompareStrings.simps)

lemma same_name_string:
  "ProcessString w [prog, opt, path, path, name] =
     Exit 1 (w\<lparr>cerr := cerr w @
       ''Error: Input file and output file can't have the same name'' @ [LF]\<rparr>)"
  by (simp add: ProcessString_def CompareStrings_zero cerr_line_def del: CompareStrings.simps)

lemma invalid_name_hex:
  assumes "\<not> valid_name name"
  shows "ProcessHex w [prog, inp, outp, name] =
    (if CompareStrings inp outp = 0
     then Exit 1 (cerr_line ''Error: Input file and output file can't have the same name'' w)
     else if files w (realpath w (c_str inp)) = None
     then Exit 1 (cerr_line ''Error: Couldn't open input file'' w)
     else if \<not> writable w (realpath w (c_str outp))
     then Exit 1 (cerr_line ''Error: Couldn't open output file'' w)
     else Exit 1 (w\<lparr>files := (files w)(realpath w (c_str outp) \<mapsto> []),
                    cerr := cerr w @ invalid_name_message\<rparr>))"
  using assms
  by (auto simp add: ProcessHex_def open_in_def open_out_def ValidateArrayName_def
      simp del: CompareStrings.simps split: option.splits)

lemma invalid_name_string:
  assumes "\<not> valid_name name"
  shows "ProcessString w [prog, opt, inp, outp, name] =
    (if CompareStrings inp outp = 0
     then Exit 1 (cerr_line ''Error: Input file and output file can't have the same name'' w)
     else if files w (realpath w (c_str inp)) = None
     then Exit 1 (cerr_line ''Error: Couldn't open input file'' w)
     else if \<not> writable w (realpath w (c_str outp))
     then Exit 1 (cerr_line ''Error: Couldn't open output file'' w)
     else Exit 1 (w\<lparr>files := (files w)(realpath w (c_str outp) \<mapsto> []),
                    cerr := cerr w @ invalid_name_message\<rparr>))"
  using assms
  by (auto simp add: ProcessString_def open_in_def open_out_def ValidateArrayName_def
      simp del: CompareStrings.simps split: option.splits)

lemma invalid_name_message_text:
  "invalid_name_message =
       ''Error: Invalid array name'' @ [LF] @
       ''    Only the following ASCII characters are allowed:'' @ [LF] @
       ''        '' @ [CHR 0x27] @ ''_'' @ [CHR 0x27] @ [LF] @
       ''        '' @ [CHR 0x27] @ ''0'' @ [CHR 0x27] @ '' to '' @ [CHR 0x27] @ ''9'' @ [CHR 0x27] @ [LF] @
       ''        '' @ [CHR 0x27] @ ''A'' @ [CHR 0x27] @ '' to '' @ [CHR 0x27] @ ''Z'' @ [CHR 0x27] @ [LF] @
       ''        '' @ [CHR 0x27] @ ''a'' @ [CHR 0x27] @ '' to '' @ [CHR 0x27] @ ''z'' @ [CHR 0x27] @ [LF] @
       ''    The first character can't be '' @ [CHR 0x27] @ ''0'' @ [CHR 0x27] @ '' to '' @
         [CHR 0x27] @ ''9'' @ [CHR 0x27] @ ''.'' @ [LF]"
  by (simp add: invalid_name_message_def quoted_def)

text \<open>
  Two names for one file. When the texts of the two names differ and both name one
  file, the guard does not see it. Opening the output then empties that file, and with
  a valid name the read loop is reached on a file that the run itself is writing.
\<close>

lemma one_file_two_names:
  assumes "CompareStrings inp outp \<noteq> 0" and "same_file w inp outp"
    and "files w (realpath w (c_str inp)) = Some content"
    and "writable w (realpath w (c_str outp))" and "valid_name name"
  shows "ProcessHex w [prog, inp, outp, name] = Reads_Own_Output"
    and "ProcessString w [prog, opt, inp, outp, name] = Reads_Own_Output"
  using assms
  by (simp_all add: ProcessHex_def ProcessString_def open_in_def open_out_def
      ValidateArrayName_def del: CompareStrings.simps)

text \<open>
  Claim C4. Help. When \<open>/?\<close> or \<open>/help\<close> is the only argument, the program puts the
  twelve lines of the help text on standard output and returns 0, and the run is the
  same for both spellings; nothing goes to the error stream and no file changes. When
  an argument follows \<open>/?\<close> or \<open>/help\<close>, it writes the error for too many arguments and
  the hint to the error stream and returns 1.
\<close>

theorem main_help_dispatch:
  "main PROJECT_NAME w [prog, ''/?''] =
     Exit 0 (w\<lparr>cout := cout w @
       ''Usage:'' @ [LF] @
       ''    ./'' @ c_str PROJECT_NAME @
         '' [option] <input_file> <output_file> <array_name>'' @ [LF] @
       [LF] @
       ''Description:'' @ [LF] @
       ''    This program copies data from the input file into the output file.'' @ [LF] @
       ''    If the output file does not exist, it is created; otherwise it is overwritten.'' @ [LF] @
       ''    The output file is formatted as a C++ header file.'' @ [LF] @
       ''    By default the data is stored into a static const char array as hex values.'' @ [LF] @
       [LF] @
       ''Options:'' @ [LF] @
       ''    /s or /string           Store the data as a static const char* string instead.'' @ [LF] @
       ''    /? or /help             Displays this help message.'' @ [LF]\<rparr>) \<and>
   main PROJECT_NAME w [prog, ''/help''] = main PROJECT_NAME w [prog, ''/?''] \<and>
   main PROJECT_NAME w (prog # ''/?'' # extra # rest) =
     Exit 1 (w\<lparr>cerr := cerr w @ ''ERROR: Too many arguments'' @ [LF] @
                      ''    Try /? or /help'' @ [LF]\<rparr>) \<and>
   main PROJECT_NAME w (prog # ''/help'' # extra # rest) =
     Exit 1 (w\<lparr>cerr := cerr w @ ''ERROR: Too many arguments'' @ [LF] @
                      ''    Try /? or /help'' @ [LF]\<rparr>)"
  by (simp only: help_option_runs exit_worlds print_help_text simp_thms)

theorem main_help_dispatch_witness:
  "main ''FileToHeaderConverter''
     \<lparr>realpath = (\<lambda>p. p), files = Map.empty, writable = (\<lambda>p. True), cout = [], cerr = []\<rparr> [''prog'', ''/?''] =
   Exit 0
     \<lparr>realpath = (\<lambda>p. p), files = Map.empty, writable = (\<lambda>p. True),
      cout =
       ''Usage:'' @ [LF] @
       ''    ./'' @ ''FileToHeaderConverter'' @
         '' [option] <input_file> <output_file> <array_name>'' @ [LF] @
       [LF] @
       ''Description:'' @ [LF] @
       ''    This program copies data from the input file into the output file.'' @ [LF] @
       ''    If the output file does not exist, it is created; otherwise it is overwritten.'' @ [LF] @
       ''    The output file is formatted as a C++ header file.'' @ [LF] @
       ''    By default the data is stored into a static const char array as hex values.'' @ [LF] @
       [LF] @
       ''Options:'' @ [LF] @
       ''    /s or /string           Store the data as a static const char* string instead.'' @ [LF] @
       ''    /? or /help             Displays this help message.'' @ [LF],
      cerr = []\<rparr> \<and>
   main ''FileToHeaderConverter''
     \<lparr>realpath = (\<lambda>p. p), files = Map.empty, writable = (\<lambda>p. True), cout = [], cerr = []\<rparr> [''prog'', ''/help'', ''in.bin''] =
   Exit 1
     \<lparr>realpath = (\<lambda>p. p), files = Map.empty, writable = (\<lambda>p. True), cout = [],
      cerr = ''ERROR: Too many arguments'' @ [LF] @ ''    Try /? or /help'' @ [LF]\<rparr>"
  using main_help_dispatch [of "''FileToHeaderConverter''"
      "\<lparr>realpath = (\<lambda>p. p), files = Map.empty, writable = (\<lambda>p. True), cout = [], cerr = []\<rparr>" "''prog''"
      "''in.bin''" "[]"]
  by (simp add: NUL_def)

text \<open>
  Claim C5. Argument counts and unknown options. With no argument the program reports
  that there are not enough arguments. When the first argument is \<open>/s\<close> or \<open>/string\<close>, the
  string encoder runs exactly when three arguments follow it; with fewer the program
  reports not enough arguments, with more too many. A first argument that begins with
  \<open>/\<close> and is none of \<open>/?\<close>, \<open>/help\<close>, \<open>/s\<close>, \<open>/string\<close> is an unrecognized option,
  whatever follows. Otherwise the hex encoder runs exactly when there are three
  arguments; with fewer the program reports not enough arguments, with more too many.
  Each of the three errors returns 1 and appends its message and the hint to try \<open>/?\<close>
  or \<open>/help\<close> to the error stream, and changes nothing else.
\<close>

theorem main_argument_dispatch:
  "main PROJECT_NAME w [] = not_enough_arguments w \<and>
   main PROJECT_NAME w [prog] = not_enough_arguments w \<and>
   (c_str a = ''/s'' \<or> c_str a = ''/string'' \<longrightarrow>
      (length rest < 3 \<longrightarrow> main PROJECT_NAME w (prog # a # rest) = not_enough_arguments w) \<and>
      (length rest > 3 \<longrightarrow> main PROJECT_NAME w (prog # a # rest) = too_many_arguments w) \<and>
      (length rest = 3 \<longrightarrow>
         main PROJECT_NAME w (prog # a # rest) = ProcessString w (prog # a # rest))) \<and>
   (deref a = CHR ''/'' \<and> c_str a \<notin> {''/?'', ''/help'', ''/s'', ''/string''} \<longrightarrow>
      main PROJECT_NAME w (prog # a # rest) = unrecognized_option w) \<and>
   (deref a \<noteq> CHR ''/'' \<longrightarrow>
      (length rest < 2 \<longrightarrow> main PROJECT_NAME w (prog # a # rest) = not_enough_arguments w) \<and>
      (length rest > 2 \<longrightarrow> main PROJECT_NAME w (prog # a # rest) = too_many_arguments w) \<and>
      (length rest = 2 \<longrightarrow>
         main PROJECT_NAME w (prog # a # rest) = ProcessHex w (prog # a # rest))) \<and>
   not_enough_arguments w =
     Exit 1 (w\<lparr>cerr := cerr w @ ''ERROR: Not enough arguments'' @ [LF] @
                      ''    Try /? or /help'' @ [LF]\<rparr>) \<and>
   too_many_arguments w =
     Exit 1 (w\<lparr>cerr := cerr w @ ''ERROR: Too many arguments'' @ [LF] @
                      ''    Try /? or /help'' @ [LF]\<rparr>) \<and>
   unrecognized_option w =
     Exit 1 (w\<lparr>cerr := cerr w @ ''ERROR: Unrecognized option'' @ [LF] @
                      ''    Try /? or /help'' @ [LF]\<rparr>)"
proof -
  have s: "c_str a = ''/s'' \<or> c_str a = ''/string'' \<Longrightarrow>
      (length rest < 3 \<longrightarrow> main PROJECT_NAME w (prog # a # rest) = not_enough_arguments w) \<and>
      (length rest > 3 \<longrightarrow> main PROJECT_NAME w (prog # a # rest) = too_many_arguments w) \<and>
      (length rest = 3 \<longrightarrow>
         main PROJECT_NAME w (prog # a # rest) = ProcessString w (prog # a # rest))"
    by (simp add: main_string_mode del: CompareStrings.simps c_str.simps)
  have h: "deref a \<noteq> CHR ''/'' \<Longrightarrow>
      (length rest < 2 \<longrightarrow> main PROJECT_NAME w (prog # a # rest) = not_enough_arguments w) \<and>
      (length rest > 2 \<longrightarrow> main PROJECT_NAME w (prog # a # rest) = too_many_arguments w) \<and>
      (length rest = 2 \<longrightarrow>
         main PROJECT_NAME w (prog # a # rest) = ProcessHex w (prog # a # rest))"
    by (simp add: main_hex_mode del: CompareStrings.simps c_str.simps)
  have u: "deref a = CHR ''/'' \<and> c_str a \<notin> {''/?'', ''/help'', ''/s'', ''/string''} \<Longrightarrow>
      main PROJECT_NAME w (prog # a # rest) = unrecognized_option w"
    by (rule main_unrecognized) simp_all
  show ?thesis
    using s h u main_no_argument [of PROJECT_NAME w] exit_worlds [of w] by blast
qed

theorem main_argument_dispatch_witness:
  "c_str ''/s'' = ''/s'' \<and> length [''in.txt'', ''out.h''] < 3 \<and>
   main ''FileToHeaderConverter''
     \<lparr>realpath = (\<lambda>p. p), files = Map.empty, writable = (\<lambda>p. True), cout = [], cerr = []\<rparr>
     [''prog'', ''/s'', ''in.txt'', ''out.h''] =
   Exit 1 \<lparr>realpath = (\<lambda>p. p), files = Map.empty, writable = (\<lambda>p. True), cout = [],
        cerr = ''ERROR: Not enough arguments'' @ [LF] @ ''    Try /? or /help'' @ [LF]\<rparr> \<and>
   deref ''/x'' = CHR ''/'' \<and> c_str ''/x'' \<notin> {''/?'', ''/help'', ''/s'', ''/string''} \<and>
   main ''FileToHeaderConverter''
     \<lparr>realpath = (\<lambda>p. p), files = Map.empty, writable = (\<lambda>p. True), cout = [], cerr = []\<rparr>
     [''prog'', ''/x'', ''in.txt'', ''out.h''] =
   Exit 1 \<lparr>realpath = (\<lambda>p. p), files = Map.empty, writable = (\<lambda>p. True), cout = [],
        cerr = ''ERROR: Unrecognized option'' @ [LF] @ ''    Try /? or /help'' @ [LF]\<rparr> \<and>
   deref ''in.bin'' \<noteq> CHR ''/'' \<and> length [''out.h'', ''myData'', ''more''] > 2 \<and>
   main ''FileToHeaderConverter''
     \<lparr>realpath = (\<lambda>p. p), files = Map.empty, writable = (\<lambda>p. True), cout = [], cerr = []\<rparr>
     [''prog'', ''in.bin'', ''out.h'', ''myData'', ''more''] =
   Exit 1 \<lparr>realpath = (\<lambda>p. p), files = Map.empty, writable = (\<lambda>p. True), cout = [],
        cerr = ''ERROR: Too many arguments'' @ [LF] @ ''    Try /? or /help'' @ [LF]\<rparr>"
proof -
  let ?w = "\<lparr>realpath = (\<lambda>p. p), files = Map.empty, writable = (\<lambda>p. True), cout = [], cerr = []\<rparr>"
  have c: "c_str ''/s'' = ''/s''" "c_str ''/x'' = ''/x''"
    by (simp_all add: NUL_def)
  show ?thesis
    using main_argument_dispatch [of "''FileToHeaderConverter''" ?w "''prog''" "''/s''"
        "[''in.txt'', ''out.h'']"]
      main_argument_dispatch [of "''FileToHeaderConverter''" ?w "''prog''" "''/x''"
        "[''in.txt'', ''out.h'']"]
      main_argument_dispatch [of "''FileToHeaderConverter''" ?w "''prog''" "''in.bin''"
        "[''out.h'', ''myData'', ''more'']"]
    by (simp add: c del: c_str.simps)
qed

text \<open>
  Claim C6. The same-name guard. When the input path and the output path are the same
  string, each encoder returns 1 and appends the same-name message to the error
  stream; the file system is as before, so neither file was opened and the output file
  is untouched. Through \<open>main\<close> this is what the program does in string mode, and in
  hex mode, which is the mode of a first argument that does not begin with \<open>/\<close>.
\<close>

theorem same_name_guard:
  "ProcessHex w [prog, path, path, name] =
     Exit 1 (w\<lparr>cerr := cerr w @
        ''Error: Input file and output file can't have the same name'' @ [LF]\<rparr>) \<and>
   ProcessString w [prog, opt, path, path, name] =
     Exit 1 (w\<lparr>cerr := cerr w @
        ''Error: Input file and output file can't have the same name'' @ [LF]\<rparr>) \<and>
   main PROJECT_NAME w [prog, ''/s'', path, path, name] =
     Exit 1 (w\<lparr>cerr := cerr w @
        ''Error: Input file and output file can't have the same name'' @ [LF]\<rparr>) \<and>
   main PROJECT_NAME w [prog, ''/string'', path, path, name] =
     Exit 1 (w\<lparr>cerr := cerr w @
        ''Error: Input file and output file can't have the same name'' @ [LF]\<rparr>) \<and>
   (deref path \<noteq> CHR ''/'' \<longrightarrow>
      main PROJECT_NAME w [prog, path, path, name] =
        Exit 1 (w\<lparr>cerr := cerr w @
           ''Error: Input file and output file can't have the same name'' @ [LF]\<rparr>))"
proof -
  have 1: "main PROJECT_NAME w [prog, ''/s'', path, path, name] =
      ProcessString w [prog, ''/s'', path, path, name]"
    using main_string_mode [of "''/s''" PROJECT_NAME w prog "[path, path, name]"]
    by (simp add: c_str_lit del: c_str.simps)
  have 2: "main PROJECT_NAME w [prog, ''/string'', path, path, name] =
      ProcessString w [prog, ''/string'', path, path, name]"
    using main_string_mode [of "''/string''" PROJECT_NAME w prog "[path, path, name]"]
    by (simp add: c_str_lit del: c_str.simps)
  have 3: "deref path \<noteq> CHR ''/'' \<Longrightarrow>
      main PROJECT_NAME w [prog, path, path, name] = ProcessHex w [prog, path, path, name]"
    using main_hex_mode [of path PROJECT_NAME w prog "[path, name]"] by simp
  have 4: "deref path \<noteq> CHR ''/'' \<longrightarrow>
      main PROJECT_NAME w [prog, path, path, name] =
        Exit 1 (w\<lparr>cerr := cerr w @
           ''Error: Input file and output file can't have the same name'' @ [LF]\<rparr>)"
  proof
    assume "deref path \<noteq> CHR ''/''"
    from 3 [OF this] show "main PROJECT_NAME w [prog, path, path, name] =
        Exit 1 (w\<lparr>cerr := cerr w @
           ''Error: Input file and output file can't have the same name'' @ [LF]\<rparr>)"
      by (simp only: same_name_hex)
  qed
  show ?thesis
    unfolding 1 2 same_name_string same_name_hex using 4 by (intro conjI refl)
qed

theorem same_name_guard_witness:
  "deref ''data.bin'' \<noteq> CHR ''/'' \<and>
   main ''FileToHeaderConverter''
     \<lparr>realpath = (\<lambda>p. p), files = [''data.bin'' \<mapsto> ''abc''], writable = (\<lambda>p. True),
       cout = [], cerr = []\<rparr>
     [''prog'', ''data.bin'', ''data.bin'', ''myData''] =
   Exit 1 \<lparr>realpath = (\<lambda>p. p), files = [''data.bin'' \<mapsto> ''abc''], writable = (\<lambda>p. True),
        cout = [],
        cerr = ''Error: Input file and output file can't have the same name'' @ [LF]\<rparr> \<and>
   main ''FileToHeaderConverter''
     \<lparr>realpath = (\<lambda>p. p), files = [''data.bin'' \<mapsto> ''abc''], writable = (\<lambda>p. True),
       cout = [], cerr = []\<rparr>
     [''prog'', ''/s'', ''data.bin'', ''data.bin'', ''myData''] =
   Exit 1 \<lparr>realpath = (\<lambda>p. p), files = [''data.bin'' \<mapsto> ''abc''], writable = (\<lambda>p. True),
        cout = [],
        cerr = ''Error: Input file and output file can't have the same name'' @ [LF]\<rparr>"
  using same_name_guard [of
      "\<lparr>realpath = (\<lambda>p. p), files = [''data.bin'' \<mapsto> ''abc''], writable = (\<lambda>p. True),
       cout = [], cerr = []\<rparr>"
      "''prog''" "''data.bin''" "''myData''" "''/s''" "''FileToHeaderConverter''"]
  by simp

text \<open>
  Claim C8. The output file is opened before the name is validated. With an invalid
  array name each encoder returns 1, and the file system afterwards is either as
  before or as before with the output file empty: no new content is written. When the
  two names differ as texts, the input file exists and the output can be written, so
  that the encoder reaches the validation, the output file is left empty, whatever it
  held, and the message of the validator is on the error stream.
\<close>

theorem invalid_name_truncates_output:
  "\<not> valid_name name \<longrightarrow>
     (\<exists>w'. ProcessHex w [prog, inp, outp, name] = Exit 1 w' \<and>
        (files w' = files w \<or> files w' = (files w)(realpath w (c_str outp) \<mapsto> []))) \<and>
     (\<exists>w'. ProcessString w [prog, opt, inp, outp, name] = Exit 1 w' \<and>
        (files w' = files w \<or> files w' = (files w)(realpath w (c_str outp) \<mapsto> []))) \<and>
     (CompareStrings inp outp \<noteq> 0 \<and> files w (realpath w (c_str inp)) \<noteq> None \<and>
      writable w (realpath w (c_str outp)) \<longrightarrow>
        ProcessHex w [prog, inp, outp, name] =
          Exit 1 (w\<lparr>files := (files w)(realpath w (c_str outp) \<mapsto> []),
                cerr := cerr w @
       ''Error: Invalid array name'' @ [LF] @
       ''    Only the following ASCII characters are allowed:'' @ [LF] @
       ''        '' @ [CHR 0x27] @ ''_'' @ [CHR 0x27] @ [LF] @
       ''        '' @ [CHR 0x27] @ ''0'' @ [CHR 0x27] @ '' to '' @ [CHR 0x27] @ ''9'' @ [CHR 0x27] @ [LF] @
       ''        '' @ [CHR 0x27] @ ''A'' @ [CHR 0x27] @ '' to '' @ [CHR 0x27] @ ''Z'' @ [CHR 0x27] @ [LF] @
       ''        '' @ [CHR 0x27] @ ''a'' @ [CHR 0x27] @ '' to '' @ [CHR 0x27] @ ''z'' @ [CHR 0x27] @ [LF] @
       ''    The first character can't be '' @ [CHR 0x27] @ ''0'' @ [CHR 0x27] @ '' to '' @
         [CHR 0x27] @ ''9'' @ [CHR 0x27] @ ''.'' @ [LF]\<rparr>) \<and>
        ProcessString w [prog, opt, inp, outp, name] =
          ProcessHex w [prog, inp, outp, name])"
proof
  assume n: "\<not> valid_name name"
  show "(\<exists>w'. ProcessHex w [prog, inp, outp, name] = Exit 1 w' \<and>
        (files w' = files w \<or> files w' = (files w)(realpath w (c_str outp) \<mapsto> []))) \<and>
     (\<exists>w'. ProcessString w [prog, opt, inp, outp, name] = Exit 1 w' \<and>
        (files w' = files w \<or> files w' = (files w)(realpath w (c_str outp) \<mapsto> []))) \<and>
     (CompareStrings inp outp \<noteq> 0 \<and> files w (realpath w (c_str inp)) \<noteq> None \<and>
      writable w (realpath w (c_str outp)) \<longrightarrow>
        ProcessHex w [prog, inp, outp, name] =
          Exit 1 (w\<lparr>files := (files w)(realpath w (c_str outp) \<mapsto> []),
                cerr := cerr w @
       ''Error: Invalid array name'' @ [LF] @
       ''    Only the following ASCII characters are allowed:'' @ [LF] @
       ''        '' @ [CHR 0x27] @ ''_'' @ [CHR 0x27] @ [LF] @
       ''        '' @ [CHR 0x27] @ ''0'' @ [CHR 0x27] @ '' to '' @ [CHR 0x27] @ ''9'' @ [CHR 0x27] @ [LF] @
       ''        '' @ [CHR 0x27] @ ''A'' @ [CHR 0x27] @ '' to '' @ [CHR 0x27] @ ''Z'' @ [CHR 0x27] @ [LF] @
       ''        '' @ [CHR 0x27] @ ''a'' @ [CHR 0x27] @ '' to '' @ [CHR 0x27] @ ''z'' @ [CHR 0x27] @ [LF] @
       ''    The first character can't be '' @ [CHR 0x27] @ ''0'' @ [CHR 0x27] @ '' to '' @
         [CHR 0x27] @ ''9'' @ [CHR 0x27] @ ''.'' @ [LF]\<rparr>) \<and>
        ProcessString w [prog, opt, inp, outp, name] =
          ProcessHex w [prog, inp, outp, name])"
    unfolding invalid_name_hex [OF n] invalid_name_string [OF n]
      invalid_name_message_text [symmetric]
    by (simp add: cerr_line_def del: CompareStrings.simps c_str.simps)
qed

theorem invalid_name_truncates_output_witness:
  "\<not> valid_name ''9lives'' \<and>
   CompareStrings ''in.bin'' ''out.h'' \<noteq> 0 \<and>
   ProcessHex
     \<lparr>realpath = (\<lambda>p. p), files = [''in.bin'' \<mapsto> ''abc'', ''out.h'' \<mapsto> ''old text''],
       writable = (\<lambda>p. True), cout = [], cerr = []\<rparr>
     [''prog'', ''in.bin'', ''out.h'', ''9lives''] =
   Exit 1 \<lparr>realpath = (\<lambda>p. p), files = [''in.bin'' \<mapsto> ''abc'', ''out.h'' \<mapsto> []],
        writable = (\<lambda>p. True), cout = [], cerr = invalid_name_message\<rparr> \<and>
   ProcessString
     \<lparr>realpath = (\<lambda>p. p), files = [''in.bin'' \<mapsto> ''abc'', ''out.h'' \<mapsto> ''old text''],
       writable = (\<lambda>p. True), cout = [], cerr = []\<rparr>
     [''prog'', ''/s'', ''in.bin'', ''out.h'', ''9lives''] =
   Exit 1 \<lparr>realpath = (\<lambda>p. p), files = [''in.bin'' \<mapsto> ''abc'', ''out.h'' \<mapsto> []],
        writable = (\<lambda>p. True), cout = [], cerr = invalid_name_message\<rparr> \<and>
   CompareStrings ''in.bin'' ''./in.bin'' \<noteq> 0 \<and>
   ProcessHex
     \<lparr>realpath = (\<lambda>p. if p = ''./in.bin'' then ''in.bin'' else p),
       files = [''in.bin'' \<mapsto> ''abc''], writable = (\<lambda>p. True), cout = [], cerr = []\<rparr>
     [''prog'', ''in.bin'', ''./in.bin'', ''9lives''] =
   Exit 1 \<lparr>realpath = (\<lambda>p. if p = ''./in.bin'' then ''in.bin'' else p),
        files = [''in.bin'' \<mapsto> []], writable = (\<lambda>p. True), cout = [],
        cerr = invalid_name_message\<rparr>"
proof -
  let ?w = "\<lparr>realpath = (\<lambda>p. p), files = [''in.bin'' \<mapsto> ''abc'', ''out.h'' \<mapsto> ''old text''],
       writable = (\<lambda>p. True), cout = [], cerr = []\<rparr>"
  let ?a = "\<lparr>realpath = (\<lambda>p. if p = ''./in.bin'' then ''in.bin'' else p),
       files = [''in.bin'' \<mapsto> ''abc''], writable = (\<lambda>p. True), cout = [], cerr = []\<rparr>"
  have h: "CompareStrings ''in.bin'' ''out.h'' \<noteq> 0"
    "CompareStrings ''in.bin'' ''./in.bin'' \<noteq> 0"
    by (simp_all add: compare_tail_def char_val_def NUL_def)
  have v: "\<not> valid_name ''9lives''"
    by (simp add: valid_name_iff matches_identifier_def is_letter_def NUL_def)
  show ?thesis
    using invalid_name_truncates_output [of "''9lives''" ?w "''prog''" "''in.bin''" "''out.h''"
        "''/s''"]
      invalid_name_truncates_output [of "''9lives''" ?a "''prog''" "''in.bin''" "''./in.bin''"
        "''/s''"] h v
    by (simp add: NUL_def invalid_name_message_text del: CompareStrings.simps)
qed

end
